theory Spec2Isabelle
  imports Complex_Main
begin

section \<open>JavaScript values handled by the client\<close>

text \<open>
  The two components (\<^verbatim>\<open>PatientUI\<close> in \<^verbatim>\<open>client/app/patient/page.tsx\<close> and
  \<^verbatim>\<open>Home\<close>, the creation form) hold values typed \<^verbatim>\<open>any\<close>: whatever the server's
  JSON body parses to. An object is an association list in insertion order (the first
  binding of a key is the one a lookup finds). A number is a rational: the client
  never does arithmetic on one, it only tests it for zero.
\<close>

datatype jsval =
    JUndefined
  | JNull
  | JBool bool
  | JNum rat
  | JStr string
  | JArr "jsval list"
  | JObj "(string \<times> jsval) list"

type_synonym jsobj = "(string \<times> jsval) list"

datatype jserror = TypeError

text \<open>JavaScript's truthiness, as used by \<^verbatim>\<open>!x\<close>, \<^verbatim>\<open>x && y\<close> and \<^verbatim>\<open>x || y\<close>.\<close>

fun truthy :: "jsval \<Rightarrow> bool" where
  "truthy JUndefined = False"
| "truthy JNull = False"
| "truthy (JBool b) = b"
| "truthy (JNum n) = (n \<noteq> 0)"
| "truthy (JStr s) = (s \<noteq> [])"
| "truthy (JArr xs) = True"
| "truthy (JObj kvs) = True"

text \<open>
  \<^verbatim>\<open>v.k\<close>: a TypeError on \<^verbatim>\<open>null\<close> and \<^verbatim>\<open>undefined\<close>, the field of an object
  (\<^verbatim>\<open>undefined\<close> when absent), and \<^verbatim>\<open>undefined\<close> on every other value, for the keys
  the client reads (\<^verbatim>\<open>name\<close>, \<^verbatim>\<open>city\<close>, \<^verbatim>\<open>age\<close>, \<^verbatim>\<open>gender\<close>, \<^verbatim>\<open>height\<close>,
  \<^verbatim>\<open>weight\<close>, \<^verbatim>\<open>bmi\<close>, \<^verbatim>\<open>verdict\<close>, \<^verbatim>\<open>response\<close>, \<^verbatim>\<open>data\<close>, \<^verbatim>\<open>detail\<close>): none of
  them is a built-in property of a string, number, boolean or array.
\<close>

fun get_prop :: "jsval \<Rightarrow> string \<Rightarrow> jserror + jsval" where
  "get_prop JUndefined k = Inl TypeError"
| "get_prop JNull k = Inl TypeError"
| "get_prop (JObj kvs) k = Inr (case map_of kvs k of None \<Rightarrow> JUndefined | Some v \<Rightarrow> v)"
| "get_prop v k = Inr JUndefined"

text \<open>\<^verbatim>\<open>v?.k\<close>: \<^verbatim>\<open>undefined\<close> when \<^verbatim>\<open>v\<close> is nullish, \<^verbatim>\<open>v.k\<close> otherwise.\<close>

definition opt_prop :: "jsval \<Rightarrow> string \<Rightarrow> jsval" where
  "opt_prop v k = (case get_prop v k of Inl e \<Rightarrow> JUndefined | Inr x \<Rightarrow> x)"

text \<open>\<^verbatim>\<open>a || b\<close>.\<close>

definition js_or :: "jsval \<Rightarrow> jsval \<Rightarrow> jsval" where
  "js_or a b = (if truthy a then a else b)"

text \<open>
  An object literal \<^verbatim>\<open>{k1: d.k1, k2: d.k2, ...}\<close>: the fields are read in order and the
  first read that throws aborts the literal.
\<close>

fun get_props :: "jsval \<Rightarrow> string list \<Rightarrow> jserror + jsobj" where
  "get_props d [] = Inr []"
| "get_props d (k # ks) =
     (case get_prop d k of
        Inl e \<Rightarrow> Inl e
      | Inr v \<Rightarrow> (case get_props d ks of
                   Inl e \<Rightarrow> Inl e
                 | Inr kvs \<Rightarrow> Inr ((k, v) # kvs)))"

text \<open>
  \<^verbatim>\<open>{...prev, [name]: value}\<close>: an existing key keeps its place and takes the new
  value, a new key is appended.
\<close>

fun obj_set :: "jsobj \<Rightarrow> string \<Rightarrow> jsval \<Rightarrow> jsobj" where
  "obj_set [] k v = [(k, v)]"
| "obj_set ((k', v') # kvs) k v =
     (if k' = k then (k, v) # kvs else (k', v') # obj_set kvs k v)"

section \<open>Requests, responses and effects\<close>

datatype http_method = GET | PUT | DELETE | POST

text \<open>
  The arguments of an \<^verbatim>\<open>axios\<close> call: the HTTP verb, the URL string, the \<^verbatim>\<open>params\<close> of the
  configuration object and the data argument. No call of the client passes any other
  configuration (no \<^verbatim>\<open>signal\<close>, no \<^verbatim>\<open>cancelToken\<close>, no headers).
\<close>

record http_request =
  http_verb :: http_method
  url :: string
  params :: "(string \<times> string) list"
  body :: "jsval option"

text \<open>
  What \<^verbatim>\<open>await axios...\<close> yields: the promise resolves with a response whose \<^verbatim>\<open>data\<close>
  is given, or rejects with an axios error, whose \<^verbatim>\<open>response\<close> is absent (no answer
  from the server) or carries the \<^verbatim>\<open>data\<close> of the error answer.
\<close>

datatype response = Resolved jsval | Rejected "jsval option"

text \<open>
  What a \<^verbatim>\<open>catch\<close> block receives: the axios error of a rejected request, or an error
  thrown by the \<^verbatim>\<open>try\<close> block itself.
\<close>

datatype js_exn = AxiosError "jsval option" | Thrown jserror

text \<open>\<^verbatim>\<open>err.response?.data\<close>.\<close>

fun exn_response_data :: "js_exn \<Rightarrow> jsval" where
  "exn_response_data (AxiosError None) = JUndefined"
| "exn_response_data (AxiosError (Some d)) = d"
| "exn_response_data (Thrown e) = JUndefined"

datatype logged = LogVal jsval | LogExn js_exn

datatype effect =
    Http http_request
  | Alert string
  | Confirm string
  | ConsoleError "logged list"
  | ConsoleLog "logged list"
  | PreventDefault

fun requests_of :: "effect list \<Rightarrow> http_request list" where
  "requests_of [] = []"
| "requests_of (Http r # es) = r # requests_of es"
| "requests_of (e # es) = requests_of es"

definition base_url :: string where
  "base_url = ''http://127.0.0.1:8000''"

section \<open>The dashboard component \<^verbatim>\<open>PatientUI\<close>\<close>

record PatientUI_state =
  patients :: jsval
  loading :: bool
  sortBy :: string
  order :: string
  patientId :: string
  singlePatient :: jsval
  error :: jsval
  updateData :: jsobj

definition update_keys :: "string list" where
  "update_keys = [''name'', ''city'', ''age'', ''gender'', ''height'', ''weight'']"

definition PatientUI_init :: PatientUI_state where
  "PatientUI_init =
     \<lparr> patients = JArr [], loading = False, sortBy = ''height'', order = ''asc'',
       patientId = [], singlePatient = JNull, error = JStr [],
       updateData = map (\<lambda>k. (k, JStr [])) update_keys \<rparr>"

text \<open>
  An \<^verbatim>\<open>async\<close> handler runs synchronously up to its \<^verbatim>\<open>await\<close> (the \<open>_start\<close>
  function: the state updates made so far and the effects, among them the request) and
  is resumed when the promise settles (the \<open>_resume\<close> function, applied to the state
  the component has by then, since a state setter writes to the current state).
\<close>

subsection \<open>\<^verbatim>\<open>fetchSortedPatients\<close>\<close>

definition sort_request :: "string \<Rightarrow> string \<Rightarrow> http_request" where
  "sort_request sb ord =
     \<lparr> http_verb = GET, url = base_url @ ''/sort'',
       params = [(''sort_by'', sb), (''order'', ord)], body = None \<rparr>"

definition fetchSortedPatients_start :: "PatientUI_state \<Rightarrow> PatientUI_state \<times> effect list" where
  "fetchSortedPatients_start s =
     (s\<lparr>loading := True\<rparr>, [Http (sort_request (sortBy s) (order s))])"

definition fetchSortedPatients_resume ::
  "response \<Rightarrow> PatientUI_state \<Rightarrow> PatientUI_state \<times> effect list" where
  "fetchSortedPatients_resume r s =
     (case r of
        Resolved d \<Rightarrow> (s\<lparr>patients := d, loading := False\<rparr>, [])
      | Rejected err \<Rightarrow>
          (s\<lparr>loading := False\<rparr>, [ConsoleError [LogVal (JStr ''Error fetching sorted:''), LogExn (AxiosError err)]]))"

subsection \<open>\<^verbatim>\<open>handleSearch\<close>\<close>

definition patient_request :: "string \<Rightarrow> http_request" where
  "patient_request pid =
     \<lparr> http_verb = GET, url = base_url @ ''/patient/'' @ pid, params = [], body = None \<rparr>"

definition handleSearch_start :: "PatientUI_state \<Rightarrow> PatientUI_state \<times> effect list" where
  "handleSearch_start s =
     (if patientId s = [] then (s\<lparr>error := JStr ''Enter a valid patient ID.''\<rparr>, [])
      else (s\<lparr>error := JStr [], singlePatient := JNull, loading := True\<rparr>,
            [Http (patient_request (patientId s))]))"

text \<open>The \<^verbatim>\<open>catch\<close> block: \<^verbatim>\<open>setError(err.response?.data?.detail || "Patient not found.")\<close>.\<close>

definition search_error :: "js_exn \<Rightarrow> jsval" where
  "search_error err =
     js_or (opt_prop (exn_response_data err) ''detail'') (JStr ''Patient not found.'')"

definition handleSearch_resume ::
  "response \<Rightarrow> PatientUI_state \<Rightarrow> PatientUI_state \<times> effect list" where
  "handleSearch_resume r s =
     (case r of
        Resolved d \<Rightarrow>
          (case get_props d update_keys of
             Inr ud \<Rightarrow> (s\<lparr>singlePatient := d, updateData := ud, loading := False\<rparr>, [])
           | Inl e \<Rightarrow>
               (s\<lparr>singlePatient := d, error := search_error (Thrown e), loading := False\<rparr>, []))
      | Rejected err \<Rightarrow> (s\<lparr>error := search_error (AxiosError err), loading := False\<rparr>, []))"

subsection \<open>\<^verbatim>\<open>handleUpdateChange\<close>\<close>

text \<open>The arguments are \<^verbatim>\<open>e.target.name\<close> and \<^verbatim>\<open>e.target.value\<close> (a string).\<close>

definition handleUpdateChange :: "string \<Rightarrow> string \<Rightarrow> PatientUI_state \<Rightarrow> PatientUI_state" where
  "handleUpdateChange name val s = s\<lparr>updateData := obj_set (updateData s) name (JStr val)\<rparr>"

subsection \<open>\<^verbatim>\<open>updatePatient\<close>\<close>

definition edit_request :: "string \<Rightarrow> jsobj \<Rightarrow> http_request" where
  "edit_request pid ud =
     \<lparr> http_verb = PUT, url = base_url @ ''/edit/'' @ pid, params = [], body = Some (JObj ud) \<rparr>"

definition updatePatient_start :: "PatientUI_state \<Rightarrow> PatientUI_state \<times> effect list" where
  "updatePatient_start s = (s, [Http (edit_request (patientId s) (updateData s))])"

definition updatePatient_resume ::
  "response \<Rightarrow> PatientUI_state \<Rightarrow> PatientUI_state \<times> effect list" where
  "updatePatient_resume r s =
     (case r of
        Resolved d \<Rightarrow> (s, [Alert ''Patient updated successfully!''])
      | Rejected err \<Rightarrow> (s, [Alert ''Failed to update patient.'']))"

subsection \<open>\<^verbatim>\<open>deletePatient\<close>\<close>

definition delete_request :: "string \<Rightarrow> http_request" where
  "delete_request pid =
     \<lparr> http_verb = DELETE, url = base_url @ ''/delete/'' @ pid, params = [], body = None \<rparr>"

text \<open>The first argument is the user's answer to the \<^verbatim>\<open>confirm\<close> dialog.\<close>

definition deletePatient_start ::
  "bool \<Rightarrow> PatientUI_state \<Rightarrow> PatientUI_state \<times> effect list" where
  "deletePatient_start answer s =
     (if \<not> answer then (s, [Confirm (''Delete patient '' @ patientId s @ ''?'')])
      else (s, [Confirm (''Delete patient '' @ patientId s @ ''?''),
                Http (delete_request (patientId s))]))"

definition deletePatient_resume ::
  "response \<Rightarrow> PatientUI_state \<Rightarrow> PatientUI_state \<times> effect list" where
  "deletePatient_resume r s =
     (case r of
        Resolved d \<Rightarrow>
          (s\<lparr>singlePatient := JNull, patientId := []\<rparr>, [Alert ''Patient deleted successfully!''])
      | Rejected err \<Rightarrow> (s, [Alert ''Deletion failed.'']))"

subsection \<open>What \<^verbatim>\<open>PatientUI\<close> renders\<close>

text \<open>
  The view holds the values the JSX hands to React, as they are: the patient panel
  (\<^verbatim>\<open>singlePatient && ...\<close>) and each card of \<^verbatim>\<open>patients.map\<close> are the fields read
  from the record, keyed by field name. Rendering throws where the JSX does:
  \<^verbatim>\<open>patients.map\<close> on a value that is no array, and a field read on a nullish element.
\<close>

definition panel_keys :: "string list" where
  "panel_keys = [''name'', ''city'', ''age'', ''gender'', ''height'', ''weight'', ''bmi'', ''verdict'']"

definition card_keys :: "string list" where
  "card_keys = [''name'', ''height'', ''weight'', ''bmi'', ''verdict'']"

definition sortBy_options :: "string list" where
  "sortBy_options = [''height'', ''weight'', ''bmi'']"

definition order_options :: "string list" where
  "order_options = [''asc'', ''desc'']"

fun collect :: "(jserror + 'a) list \<Rightarrow> jserror + 'a list" where
  "collect [] = Inr []"
| "collect (x # xs) =
     (case x of
        Inl e \<Rightarrow> Inl e
      | Inr v \<Rightarrow> (case collect xs of Inl e \<Rightarrow> Inl e | Inr vs \<Rightarrow> Inr (v # vs)))"

definition render_cards :: "jsval \<Rightarrow> jserror + jsobj list" where
  "render_cards ps =
     (case ps of
        JArr xs \<Rightarrow> collect (map (\<lambda>p. get_props p card_keys) xs)
      | _ \<Rightarrow> Inl TypeError)"

record PatientUI_view =
  v_patientId :: string
  v_error :: "jsval option"
  v_panel :: "jsobj option"
  v_edit_form :: "jsobj option"
  v_sortBy :: string
  v_order :: string
  v_loading :: bool
  v_cards :: "jsobj list"

definition render :: "PatientUI_state \<Rightarrow> jserror + PatientUI_view" where
  "render s =
     (case (if truthy (singlePatient s)
            then (case get_props (singlePatient s) panel_keys of
                    Inl e \<Rightarrow> Inl e | Inr pn \<Rightarrow> Inr (Some pn))
            else Inr None) of
        Inl e \<Rightarrow> Inl e
      | Inr panel \<Rightarrow>
          (case (if loading s then Inr [] else render_cards (patients s)) of
             Inl e \<Rightarrow> Inl e
           | Inr cards \<Rightarrow>
               Inr \<lparr> v_patientId = patientId s,
                     v_error = (if truthy (error s) then Some (error s) else None),
                     v_panel = panel,
                     v_edit_form = (if truthy (singlePatient s)
                                    then Some (map (\<lambda>k. (k, opt_prop (JObj (updateData s)) k)) update_keys)
                                    else None),
                     v_sortBy = sortBy s,
                     v_order = order s,
                     v_loading = loading s,
                     v_cards = cards \<rparr>))"

subsection \<open>The component as a transition system\<close>

text \<open>
  A world is the component's state, the requests in flight (each with the handler that
  awaits it) and the effects so far. A user event runs its handler up to the
  \<^verbatim>\<open>await\<close>; \<open>Settle i r\<close> settles the \<open>i\<close>-th request in flight with \<open>r\<close> and resumes
  its handler. The effect \<^verbatim>\<open>useEffect(..., [sortBy, order])\<close> calls
  \<^verbatim>\<open>fetchSortedPatients\<close> after the first render and after each render in which
  \<^verbatim>\<open>sortBy\<close> or \<^verbatim>\<open>order\<close> has changed.
\<close>

datatype cont = KSort | KSearch | KUpdate | KDelete

datatype ui_event =
    TypePatientId string
  | ClickSearch
  | ChangeUpdate string string
  | ClickUpdate
  | ClickDelete bool
  | SelectSortBy string
  | SelectOrder string
  | ClickApply
  | Settle nat response

record PatientUI_world =
  ui :: PatientUI_state
  pending :: "(cont \<times> http_request) list"
  trace :: "effect list"

definition launch ::
  "cont \<Rightarrow> PatientUI_state \<times> effect list \<Rightarrow> PatientUI_world \<Rightarrow> PatientUI_world" where
  "launch k out w =
     w\<lparr> ui := fst out,
        pending := pending w @ map (Pair k) (requests_of (snd out)),
        trace := trace w @ snd out \<rparr>"

fun resume :: "cont \<Rightarrow> response \<Rightarrow> PatientUI_state \<Rightarrow> PatientUI_state \<times> effect list" where
  "resume KSort r s = fetchSortedPatients_resume r s"
| "resume KSearch r s = handleSearch_resume r s"
| "resume KUpdate r s = updatePatient_resume r s"
| "resume KDelete r s = deletePatient_resume r s"

text \<open>
  Which events the rendered page offers: the edit form and its two buttons exist only
  while \<^verbatim>\<open>singlePatient\<close> is truthy, a select offers only its options, and only a
  request in flight can settle.
\<close>

fun offered :: "PatientUI_world \<Rightarrow> ui_event \<Rightarrow> bool" where
  "offered w (ChangeUpdate name val) = (truthy (singlePatient (ui w)) \<and> name \<in> set update_keys)"
| "offered w ClickUpdate = truthy (singlePatient (ui w))"
| "offered w (ClickDelete answer) = truthy (singlePatient (ui w))"
| "offered w (SelectSortBy v) = (v \<in> set sortBy_options)"
| "offered w (SelectOrder v) = (v \<in> set order_options)"
| "offered w (Settle i r) = (i < length (pending w))"
| "offered w e = True"

fun fire :: "ui_event \<Rightarrow> PatientUI_world \<Rightarrow> PatientUI_world" where
  "fire (TypePatientId v) w = w\<lparr>ui := (ui w)\<lparr>patientId := v\<rparr>\<rparr>"
| "fire ClickSearch w = launch KSearch (handleSearch_start (ui w)) w"
| "fire (ChangeUpdate name val) w = w\<lparr>ui := handleUpdateChange name val (ui w)\<rparr>"
| "fire ClickUpdate w = launch KUpdate (updatePatient_start (ui w)) w"
| "fire (ClickDelete answer) w = launch KDelete (deletePatient_start answer (ui w)) w"
| "fire (SelectSortBy v) w =
     (if v = sortBy (ui w) then w
      else launch KSort (fetchSortedPatients_start ((ui w)\<lparr>sortBy := v\<rparr>)) w)"
| "fire (SelectOrder v) w =
     (if v = order (ui w) then w
      else launch KSort (fetchSortedPatients_start ((ui w)\<lparr>order := v\<rparr>)) w)"
| "fire ClickApply w = launch KSort (fetchSortedPatients_start (ui w)) w"
| "fire (Settle i r) w =
     (if i < length (pending w)
      then launch (fst (pending w ! i)) (resume (fst (pending w ! i)) r (ui w))
             (w\<lparr>pending := take i (pending w) @ drop (Suc i) (pending w)\<rparr>)
      else w)"

definition step :: "ui_event \<Rightarrow> PatientUI_world \<Rightarrow> PatientUI_world" where
  "step e w = (if offered w e then fire e w else w)"

fun run :: "ui_event list \<Rightarrow> PatientUI_world \<Rightarrow> PatientUI_world" where
  "run [] w = w"
| "run (e # es) w = run es (step e w)"

text \<open>The world after the first render: the effect has called \<^verbatim>\<open>fetchSortedPatients\<close>.\<close>

definition PatientUI_mounted :: PatientUI_world where
  "PatientUI_mounted =
     launch KSort (fetchSortedPatients_start PatientUI_init)
       \<lparr> ui = PatientUI_init, pending = [], trace = [] \<rparr>"

section \<open>The creation form \<^verbatim>\<open>Home\<close>\<close>

record Home_state =
  formData :: jsobj
  loadingH :: bool

definition form_keys :: "string list" where
  "form_keys = [''id'', ''name'', ''gender'', ''city'', ''age'', ''height'', ''weight'']"

definition empty_form :: jsobj where
  "empty_form = map (\<lambda>k. (k, JStr [])) form_keys"

definition Home_init :: Home_state where
  "Home_init = \<lparr> formData = empty_form, loadingH = False \<rparr>"

definition handleChange :: "string \<Rightarrow> string \<Rightarrow> Home_state \<Rightarrow> Home_state" where
  "handleChange name val s = s\<lparr>formData := obj_set (formData s) name (JStr val)\<rparr>"

definition created_request :: "jsobj \<Rightarrow> http_request" where
  "created_request fd =
     \<lparr> http_verb = POST, url = base_url @ ''/created'', params = [], body = Some (JObj fd) \<rparr>"

definition handleSubmit_start :: "Home_state \<Rightarrow> Home_state \<times> effect list" where
  "handleSubmit_start s =
     (s\<lparr>loadingH := True\<rparr>, [PreventDefault, Http (created_request (formData s))])"

definition handleSubmit_resume :: "response \<Rightarrow> Home_state \<Rightarrow> Home_state \<times> effect list" where
  "handleSubmit_resume r s =
     (case r of
        Resolved d \<Rightarrow>
          (s\<lparr>formData := empty_form, loadingH := False\<rparr>,
           [Alert ''Patient created successfully!'', ConsoleLog [LogVal d]])
      | Rejected err \<Rightarrow>
          (s\<lparr>loadingH := False\<rparr>,
           [Alert ''Submission failed'', ConsoleError [LogExn (AxiosError err)]]))"

datatype home_event = HChange string string | HSubmit | HSettle nat response

record Home_world =
  hui :: Home_state
  hpending :: "http_request list"
  htrace :: "effect list"

definition hlaunch :: "Home_state \<times> effect list \<Rightarrow> Home_world \<Rightarrow> Home_world" where
  "hlaunch out w =
     w\<lparr> hui := fst out,
        hpending := hpending w @ requests_of (snd out),
        htrace := htrace w @ snd out \<rparr>"

text \<open>
  The submit button is \<^verbatim>\<open>disabled={loading}\<close>: while it is disabled the form cannot be
  submitted. \<open>HSubmit\<close> is the submit event as the browser dispatches it; the validation
  of the inputs that the browser runs before it dispatches the event is \<open>attempt_submit\<close>
  below.
\<close>

fun hoffered :: "Home_world \<Rightarrow> home_event \<Rightarrow> bool" where
  "hoffered w (HChange name val) = (name \<in> set form_keys)"
| "hoffered w HSubmit = (\<not> loadingH (hui w))"
| "hoffered w (HSettle i r) = (i < length (hpending w))"

fun hfire :: "home_event \<Rightarrow> Home_world \<Rightarrow> Home_world" where
  "hfire (HChange name val) w = w\<lparr>hui := handleChange name val (hui w)\<rparr>"
| "hfire HSubmit w = hlaunch (handleSubmit_start (hui w)) w"
| "hfire (HSettle i r) w =
     (if i < length (hpending w)
      then hlaunch (handleSubmit_resume r (hui w))
             (w\<lparr>hpending := take i (hpending w) @ drop (Suc i) (hpending w)\<rparr>)
      else w)"

definition hstep :: "home_event \<Rightarrow> Home_world \<Rightarrow> Home_world" where
  "hstep e w = (if hoffered w e then hfire e w else w)"

fun hrun :: "home_event list \<Rightarrow> Home_world \<Rightarrow> Home_world" where
  "hrun [] w = w"
| "hrun (e # es) w = hrun es (hstep e w)"

definition Home_mounted :: Home_world where
  "Home_mounted = \<lparr> hui = Home_init, hpending = [], htrace = [] \<rparr>"

subsection \<open>The browser's validation of the form\<close>

text \<open>
  The \<^verbatim>\<open><form onSubmit={handleSubmit}>\<close> has no \<^verbatim>\<open>noValidate\<close>, and the inputs \<^verbatim>\<open>age\<close>,
  \<^verbatim>\<open>height\<close> and \<^verbatim>\<open>weight\<close> are \<^verbatim>\<open>type="number"\<close>: when the user clicks the enabled submit
  button or presses Enter in a field, the browser first validates these inputs and
  dispatches the submit event only if all are valid. No input is \<^verbatim>\<open>required\<close> and none
  has \<^verbatim>\<open>min\<close> or \<^verbatim>\<open>max\<close>, so an input is invalid when its text is no number (bad input)
  or when its number is not on the input's step grid (step mismatch). Numbers are
  rationals here: the text is read exactly.

  A valid floating-point number: an optional \<^verbatim>\<open>-\<close>, digits and/or a \<^verbatim>\<open>.\<close> followed by
  digits, and an optional exponent (\<^verbatim>\<open>e\<close> or \<^verbatim>\<open>E\<close>, an optional sign, digits).
\<close>

definition is_digit :: "char \<Rightarrow> bool" where
  "is_digit c = (c \<in> set ''0123456789'')"

definition digits_value :: "string \<Rightarrow> nat" where
  "digits_value s = foldl (\<lambda>n c. 10 * n + (of_char c - 48)) 0 s"

definition split_at :: "(char \<Rightarrow> bool) \<Rightarrow> string \<Rightarrow> string \<times> string option" where
  "split_at P s =
     (takeWhile (\<lambda>c. \<not> P c) s,
      case dropWhile (\<lambda>c. \<not> P c) s of [] \<Rightarrow> None | c # rest \<Rightarrow> Some rest)"

definition parse_exponent :: "string option \<Rightarrow> int option" where
  "parse_exponent ex =
     (case ex of
        None \<Rightarrow> Some 0
      | Some x \<Rightarrow>
          (let (sg, ds) = (case x of
                             [] \<Rightarrow> (1, [])
                           | c # t \<Rightarrow> if c = CHR ''-'' then (- 1, t)
                                      else if c = CHR ''+'' then (1, t) else (1, x))
           in if ds \<noteq> [] \<and> list_all is_digit ds then Some (sg * int (digits_value ds))
              else None))"

definition parse_float :: "string \<Rightarrow> rat option" where
  "parse_float s =
     (let (sg, s1) = (case s of
                        [] \<Rightarrow> (1, [])
                      | c # t \<Rightarrow> if c = CHR ''-'' then (- 1, t) else (1, s));
          (mant, ex) = split_at (\<lambda>c. c = CHR ''e'' \<or> c = CHR ''E'') s1;
          (ip, fp) = split_at (\<lambda>c. c = CHR ''.'') mant;
          frac = (case fp of None \<Rightarrow> [] | Some f \<Rightarrow> f)
      in if list_all is_digit ip \<and> list_all is_digit frac \<and>
            (case fp of None \<Rightarrow> ip \<noteq> [] | Some f \<Rightarrow> f \<noteq> [])
         then (case parse_exponent ex of
                 None \<Rightarrow> None
               | Some k \<Rightarrow>
                   Some (sg * (of_nat (digits_value ip) + of_nat (digits_value frac) / 10 ^ length frac)
                           * (if 0 \<le> k then 10 ^ nat k else 1 / 10 ^ nat (- k))))
         else None)"

text \<open>
  A number input as the browser holds it: the text the user has typed and the input's
  \<^verbatim>\<open>value\<close> content attribute. The value the component reads (\<^verbatim>\<open>e.target.value\<close>) is the
  text when it is a number and the empty string otherwise. The step base is the number
  in the \<^verbatim>\<open>value\<close> attribute when it holds one, and zero otherwise.
\<close>

record dom_input =
  typed :: string
  value_attr :: string

definition input_value :: "dom_input \<Rightarrow> string" where
  "input_value d = (case parse_float (typed d) of None \<Rightarrow> [] | Some n \<Rightarrow> typed d)"

definition bad_input :: "dom_input \<Rightarrow> bool" where
  "bad_input d = (typed d \<noteq> [] \<and> parse_float (typed d) = None)"

definition step_base :: "dom_input \<Rightarrow> rat" where
  "step_base d = (case parse_float (value_attr d) of None \<Rightarrow> 0 | Some b \<Rightarrow> b)"

definition integral :: "rat \<Rightarrow> bool" where
  "integral x = (of_int \<lfloor>x\<rfloor> = x)"

definition step_mismatch :: "rat \<Rightarrow> dom_input \<Rightarrow> bool" where
  "step_mismatch st d =
     (case parse_float (typed d) of
        None \<Rightarrow> False
      | Some n \<Rightarrow> \<not> integral ((n - step_base d) / st))"

text \<open>
  The three number inputs of the form. \<^verbatim>\<open>height\<close> has \<^verbatim>\<open>step="0.01"\<close>; \<^verbatim>\<open>age\<close> and
  \<^verbatim>\<open>weight\<close> have no \<^verbatim>\<open>step\<close>, so theirs is the default step of a number input, 1.
\<close>

record form_dom =
  age_input :: dom_input
  height_input :: dom_input
  weight_input :: dom_input

definition constraint_valid :: "form_dom \<Rightarrow> bool" where
  "constraint_valid fdom =
     (\<not> bad_input (age_input fdom) \<and> \<not> step_mismatch 1 (age_input fdom) \<and>
      \<not> bad_input (height_input fdom) \<and> \<not> step_mismatch (1 / 100) (height_input fdom) \<and>
      \<not> bad_input (weight_input fdom) \<and> \<not> step_mismatch 1 (weight_input fdom))"

text \<open>
  The inputs are controlled (\<^verbatim>\<open>value={formData.age}\<close> and so on): what the browser holds
  agrees with the state when each input's value is the state's field.
\<close>

definition dom_agrees :: "form_dom \<Rightarrow> Home_state \<Rightarrow> bool" where
  "dom_agrees fdom s =
     (opt_prop (JObj (formData s)) ''age'' = JStr (input_value (age_input fdom)) \<and>
      opt_prop (JObj (formData s)) ''height'' = JStr (input_value (height_input fdom)) \<and>
      opt_prop (JObj (formData s)) ''weight'' = JStr (input_value (weight_input fdom)))"

text \<open>
  The user submits the form: the submit event \<open>HSubmit\<close> is dispatched only if the
  browser finds the inputs valid.
\<close>

definition attempt_submit :: "form_dom \<Rightarrow> Home_world \<Rightarrow> Home_world" where
  "attempt_submit fdom w = (if constraint_valid fdom then hstep HSubmit w else w)"

definition attempt_issued :: "form_dom \<Rightarrow> Home_world \<Rightarrow> http_request list" where
  "attempt_issued fdom w =
     requests_of (drop (length (htrace w)) (htrace (attempt_submit fdom w)))"

section \<open>Observations on runs\<close>

text \<open>The requests among the effects that one event adds to the trace.\<close>

definition issued :: "ui_event \<Rightarrow> PatientUI_world \<Rightarrow> http_request list" where
  "issued e w = requests_of (drop (length (trace w)) (trace (step e w)))"

definition hissued :: "home_event \<Rightarrow> Home_world \<Rightarrow> http_request list" where
  "hissued e w = requests_of (drop (length (htrace w)) (htrace (hstep e w)))"

text \<open>The response bodies the server has delivered in a run.\<close>

fun delivered :: "ui_event list \<Rightarrow> jsval list" where
  "delivered [] = []"
| "delivered (Settle i (Resolved d) # es) = d # delivered es"
| "delivered (e # es) = delivered es"

text \<open>
  The requests in flight whose handler has set \<^verbatim>\<open>loading\<close>: those of
  \<^verbatim>\<open>fetchSortedPatients\<close> and \<^verbatim>\<open>handleSearch\<close>.
\<close>

fun awaits_loading :: "cont \<times> http_request \<Rightarrow> bool" where
  "awaits_loading (KSort, r) = True"
| "awaits_loading (KSearch, r) = True"
| "awaits_loading (k, r) = False"

text \<open>The events that settle such a request.\<close>

fun settles_loading :: "PatientUI_world \<Rightarrow> ui_event \<Rightarrow> bool" where
  "settles_loading w (Settle i r) = (i < length (pending w) \<and> awaits_loading (pending w ! i))"
| "settles_loading w e = False"

fun is_alert :: "effect \<Rightarrow> bool" where
  "is_alert (Alert m) = True"
| "is_alert e = False"

text \<open>
  What React puts on the page for a value used as a child: the text of a string or a
  number, nothing for a boolean, \<^verbatim>\<open>null\<close> or \<^verbatim>\<open>undefined\<close>, the children of an array one
  after the other; a plain object is no valid child and makes the render throw
  (the result \<open>None\<close>).
\<close>

datatype node = NText string | NNumber rat | NNothing | NFragment "node list" | NPar node

fun react_child :: "jsval \<Rightarrow> node option" where
  "react_child (JStr s) = Some (NText s)"
| "react_child (JNum n) = Some (NNumber n)"
| "react_child (JArr xs) = map_option NFragment (those (map react_child xs))"
| "react_child (JObj kvs) = None"
| "react_child v = Some NNothing"

fun visible :: "node \<Rightarrow> bool" where
  "visible (NText s) = (s \<noteq> [])"
| "visible (NNumber n) = True"
| "visible NNothing = False"
| "visible (NFragment ns) = list_ex visible ns"
| "visible (NPar n) = visible n"

text \<open>
  \<^verbatim>\<open>{error && <p className="text-red-600 mb-4">{error}</p>}\<close>: the paragraph around the
  value when it is truthy, the falsy value itself otherwise.
\<close>

definition error_node :: "jsval \<Rightarrow> node option" where
  "error_node e = (if truthy e then map_option NPar (react_child e) else react_child e)"

definition message_shown :: "jsval \<Rightarrow> bool" where
  "message_shown e = (case error_node e of None \<Rightarrow> False | Some n \<Rightarrow> visible n)"

text \<open>
  A handler's outcome reaches the user: it has raised an alert, or the page shows a
  non-empty error message.
\<close>

definition surfaced :: "PatientUI_state \<times> effect list \<Rightarrow> bool" where
  "surfaced out = (list_ex is_alert (snd out) \<or> message_shown (error (fst out)))"

text \<open>The rendered view, when rendering does not throw.\<close>

definition projr_opt :: "jserror + 'a \<Rightarrow> 'a option" where
  "projr_opt x = (case x of Inl e \<Rightarrow> None | Inr v \<Rightarrow> Some v)"

text \<open>
  The events that deliver a patient to \<^verbatim>\<open>handleSearch\<close>, and the runs in which none
  occurs.
\<close>

fun resolves_search :: "PatientUI_world \<Rightarrow> ui_event \<Rightarrow> bool" where
  "resolves_search w (Settle i (Resolved d)) =
     (i < length (pending w) \<and> fst (pending w ! i) = KSearch)"
| "resolves_search w e = False"

fun no_search_resolves :: "ui_event list \<Rightarrow> PatientUI_world \<Rightarrow> bool" where
  "no_search_resolves [] w = True"
| "no_search_resolves (e # es) w = (\<not> resolves_search w e \<and> no_search_resolves es (step e w))"

definition loading_inv :: "PatientUI_world \<Rightarrow> bool" where
  "loading_inv w = (loading (ui w) \<longrightarrow> list_ex awaits_loading (pending w))"

definition home_inv :: "Home_world \<Rightarrow> bool" where
  "home_inv w = ((loadingH (hui w) \<longleftrightarrow> hpending w \<noteq> []) \<and> length (hpending w) \<le> 1)"

definition sort_inv :: "PatientUI_world \<Rightarrow> bool" where
  "sort_inv w = (sortBy (ui w) \<in> set sortBy_options \<and> order (ui w) \<in> set order_options)"

text \<open>The events that settle a request; all others are actions of the user.\<close>

fun is_settle :: "ui_event \<Rightarrow> bool" where
  "is_settle (Settle i r) = True"
| "is_settle e = False"

fun is_hsettle :: "home_event \<Rightarrow> bool" where
  "is_hsettle (HSettle i r) = True"
| "is_hsettle e = False"

section \<open>Shared lemmas\<close>

lemmas start_defs = fetchSortedPatients_start_def handleSearch_start_def
  updatePatient_start_def deletePatient_start_def
lemmas resume_defs = fetchSortedPatients_resume_def handleSearch_resume_def
  updatePatient_resume_def deletePatient_resume_def
lemmas request_defs = sort_request_def patient_request_def edit_request_def
  delete_request_def created_request_def base_url_def

lemma resume_no_request: "requests_of (snd (resume k r s)) = []"
  by (cases k; cases r) (simp_all add: resume_defs split: sum.splits)

lemma handleSubmit_resume_no_request: "requests_of (snd (handleSubmit_resume r s)) = []"
  by (cases r) (simp_all add: handleSubmit_resume_def)

lemma issued_cases:
  "issued e w = [] \<or>
   (\<exists>sb od. issued e w = [sort_request sb od]) \<or>
   (\<exists>pid. issued e w = [patient_request pid]) \<or>
   (\<exists>pid ud. issued e w = [edit_request pid ud]) \<or>
   (\<exists>pid. issued e w = [delete_request pid])"
proof (cases e)
  case (Settle i r)
  then show ?thesis
    by (simp add: issued_def step_def launch_def resume_no_request)
qed (auto simp: issued_def step_def launch_def start_defs)

lemma hissued_cases:
  "hissued e w = [] \<or> hissued e w = [created_request (formData (hui w))]"
proof (cases e)
  case (HSettle i r)
  then show ?thesis
    by (simp add: hissued_def hstep_def hlaunch_def handleSubmit_resume_no_request)
qed (auto simp: hissued_def hstep_def hlaunch_def handleSubmit_start_def handleChange_def)

lemma request_shapes:
  "http_verb (sort_request sb od) = GET"
  "url (sort_request sb od) = ''http://127.0.0.1:8000/sort''"
  "params (sort_request sb od) = [(''sort_by'', sb), (''order'', od)]"
  "http_verb (patient_request pid) = GET"
  "url (patient_request pid) = ''http://127.0.0.1:8000/patient/'' @ pid"
  "http_verb (edit_request pid ud) = PUT"
  "url (edit_request pid ud) = ''http://127.0.0.1:8000/edit/'' @ pid"
  "http_verb (delete_request pid) = DELETE"
  "url (delete_request pid) = ''http://127.0.0.1:8000/delete/'' @ pid"
  "http_verb (created_request fd) = POST"
  "url (created_request fd) = ''http://127.0.0.1:8000/created''"
  by (simp_all add: request_defs)

lemma handler_requests:
  "requests_of (snd (fetchSortedPatients_start s)) = [sort_request (sortBy s) (order s)]"
  "requests_of (snd (handleSearch_start s)) =
     (if patientId s = [] then [] else [patient_request (patientId s)])"
  "requests_of (snd (updatePatient_start s)) = [edit_request (patientId s) (updateData s)]"
  "requests_of (snd (deletePatient_start a s)) = (if a then [delete_request (patientId s)] else [])"
  "requests_of (snd (handleSubmit_start h)) = [created_request (formData h)]"
  by (simp_all add: start_defs handleSubmit_start_def)

section \<open>Endpoints and requests\<close>

text \<open>
  Claim C1. Every request the client issues is one of five: \<^verbatim>\<open>fetchSortedPatients\<close>
  issues \<^verbatim>\<open>GET /sort\<close> with the parameters \<^verbatim>\<open>sort_by\<close> and \<^verbatim>\<open>order\<close>, \<^verbatim>\<open>handleSearch\<close>
  issues \<^verbatim>\<open>GET /patient/{id}\<close>, \<^verbatim>\<open>updatePatient\<close> issues \<^verbatim>\<open>PUT /edit/{id}\<close>,
  \<^verbatim>\<open>deletePatient\<close> issues \<^verbatim>\<open>DELETE /delete/{id}\<close> and \<^verbatim>\<open>handleSubmit\<close> issues
  \<^verbatim>\<open>POST /created\<close>. Whatever the event and the world, the requests the event issues
  are none or one of these, and a resumed handler issues none.
\<close>

theorem client_endpoints:
  "(issued e w = [] \<or>
    (\<exists>sb od. issued e w = [sort_request sb od]) \<or>
    (\<exists>pid. issued e w = [patient_request pid]) \<or>
    (\<exists>pid ud. issued e w = [edit_request pid ud]) \<or>
    (\<exists>pid. issued e w = [delete_request pid])) \<and>
   (hissued e' w' = [] \<or> hissued e' w' = [created_request (formData (hui w'))]) \<and>
   requests_of (snd (fetchSortedPatients_start s)) = [sort_request (sortBy s) (order s)] \<and>
   requests_of (snd (handleSearch_start s)) =
     (if patientId s = [] then [] else [patient_request (patientId s)]) \<and>
   requests_of (snd (updatePatient_start s)) = [edit_request (patientId s) (updateData s)] \<and>
   requests_of (snd (deletePatient_start a s)) =
     (if a then [delete_request (patientId s)] else []) \<and>
   requests_of (snd (handleSubmit_start h)) = [created_request (formData h)] \<and>
   requests_of (snd (resume k r s)) = [] \<and>
   requests_of (snd (handleSubmit_resume r h)) = [] \<and>
   http_verb (sort_request sb od) = GET \<and>
   url (sort_request sb od) = ''http://127.0.0.1:8000/sort'' \<and>
   params (sort_request sb od) = [(''sort_by'', sb), (''order'', od)] \<and>
   http_verb (patient_request pid) = GET \<and>
   url (patient_request pid) = ''http://127.0.0.1:8000/patient/'' @ pid \<and>
   http_verb (edit_request pid ud) = PUT \<and>
   url (edit_request pid ud) = ''http://127.0.0.1:8000/edit/'' @ pid \<and>
   http_verb (delete_request pid) = DELETE \<and>
   url (delete_request pid) = ''http://127.0.0.1:8000/delete/'' @ pid \<and>
   http_verb (created_request fd) = POST \<and>
   url (created_request fd) = ''http://127.0.0.1:8000/created''"
  by (intro conjI issued_cases hissued_cases handler_requests request_shapes
        resume_no_request handleSubmit_resume_no_request)

theorem client_endpoints_witness:
  "issued ClickSearch (run [TypePatientId ''P001''] PatientUI_mounted) = [patient_request ''P001''] \<and>
   hissued HSubmit Home_mounted = [created_request (formData (hui Home_mounted))] \<and>
   requests_of (snd (handleSearch_start PatientUI_init)) = []"
proof -
  have a: "issued ClickSearch (run [TypePatientId ''P001''] PatientUI_mounted) \<noteq> []"
    by (simp add: issued_def step_def launch_def PatientUI_mounted_def PatientUI_init_def start_defs)
  have b: "hissued HSubmit Home_mounted \<noteq> []"
    by (simp add: hissued_def hstep_def hlaunch_def Home_mounted_def Home_init_def
          handleSubmit_start_def)
  have c: "patientId PatientUI_init = []" by (simp add: PatientUI_init_def)
  from client_endpoints [of ClickSearch "run [TypePatientId ''P001''] PatientUI_mounted"
      HSubmit Home_mounted PatientUI_init]
  have d: "hissued HSubmit Home_mounted = [] \<or>
             hissued HSubmit Home_mounted = [created_request (formData (hui Home_mounted))]"
    and e: "requests_of (snd (handleSearch_start PatientUI_init)) =
             (if patientId PatientUI_init = [] then []
              else [patient_request (patientId PatientUI_init)])"
    by blast+
  have f: "issued ClickSearch (run [TypePatientId ''P001''] PatientUI_mounted) = [patient_request ''P001'']"
    by (simp add: issued_def step_def launch_def PatientUI_mounted_def PatientUI_init_def start_defs)
  from b c d e f show ?thesis by simp
qed

section \<open>Failures\<close>

lemma search_error_cases:
  "search_error (AxiosError None) = JStr ''Patient not found.''"
  "\<not> truthy (opt_prop d ''detail'') \<Longrightarrow>
     search_error (AxiosError (Some d)) = JStr ''Patient not found.''"
  "truthy (opt_prop d ''detail'') \<Longrightarrow> search_error (AxiosError (Some d)) = opt_prop d ''detail''"
  by (simp_all add: search_error_def js_or_def opt_prop_def)

lemma failed_search_state:
  "handleSearch_resume (Rejected None) s =
     (s\<lparr>error := JStr ''Patient not found.'', loading := False\<rparr>, [])"
  "\<not> truthy (opt_prop d ''detail'') \<Longrightarrow>
     handleSearch_resume (Rejected (Some d)) s =
       (s\<lparr>error := JStr ''Patient not found.'', loading := False\<rparr>, [])"
  "truthy (opt_prop d ''detail'') \<Longrightarrow>
     handleSearch_resume (Rejected (Some d)) s =
       (s\<lparr>error := opt_prop d ''detail'', loading := False\<rparr>, [])"
  by (simp_all add: handleSearch_resume_def search_error_cases)

lemma message_shown_cases:
  "error_node (JStr ''Patient not found.'') = Some (NPar (NText ''Patient not found.''))"
  "m \<noteq> [] \<Longrightarrow> error_node (JStr m) = Some (NPar (NText m))"
  "m \<noteq> [] \<Longrightarrow> message_shown (JStr m)"
  "n \<noteq> 0 \<Longrightarrow> error_node (JNum n) = Some (NPar (NNumber n))"
  "n \<noteq> 0 \<Longrightarrow> message_shown (JNum n)"
  "error_node (JObj kvs) = None"
  "\<not> message_shown (JObj kvs)"
  "error_node (JBool True) = Some (NPar NNothing)"
  "\<not> message_shown (JBool True)"
  "\<not> message_shown (JStr [])"
  by (simp_all add: error_node_def message_shown_def)

text \<open>
  Claim C2, amended. When their request fails, \<^verbatim>\<open>updatePatient\<close>, \<^verbatim>\<open>deletePatient\<close> and
  \<^verbatim>\<open>handleSubmit\<close> raise an alert. \<^verbatim>\<open>handleSearch\<close> sets \<^verbatim>\<open>error\<close> to the \<^verbatim>\<open>detail\<close> of the
  error answer when that is truthy and to \<^verbatim>\<open>Patient not found.\<close> otherwise, and the page
  shows it as a non-empty message whenever the \<^verbatim>\<open>detail\<close> is absent, falsy, a non-empty
  string or a number; for a truthy \<^verbatim>\<open>detail\<close> of another kind the value is stored but a
  message is not guaranteed (an object makes the render throw, \<^verbatim>\<open>true\<close> leaves the
  paragraph empty).
  \<^verbatim>\<open>fetchSortedPatients\<close> only writes the error to the console and resets \<^verbatim>\<open>loading\<close>: it
  raises no alert and sets no message, so its failure reaches the user only if a message
  was already on the page.
\<close>

theorem failure_surfaced_except_sorting:
  "snd (updatePatient_resume (Rejected err) s) = [Alert ''Failed to update patient.''] \<and>
   surfaced (updatePatient_resume (Rejected err) s) \<and>
   snd (deletePatient_resume (Rejected err) s) = [Alert ''Deletion failed.''] \<and>
   surfaced (deletePatient_resume (Rejected err) s) \<and>
   snd (handleSubmit_resume (Rejected err) h) =
     [Alert ''Submission failed'', ConsoleError [LogExn (AxiosError err)]] \<and>
   list_ex is_alert (snd (handleSubmit_resume (Rejected err) h)) \<and>
   handleSearch_resume (Rejected None) s =
     (s\<lparr>error := JStr ''Patient not found.'', loading := False\<rparr>, []) \<and>
   (\<not> truthy (opt_prop d ''detail'') \<longrightarrow>
      handleSearch_resume (Rejected (Some d)) s =
        (s\<lparr>error := JStr ''Patient not found.'', loading := False\<rparr>, [])) \<and>
   (truthy (opt_prop d ''detail'') \<longrightarrow>
      handleSearch_resume (Rejected (Some d)) s =
        (s\<lparr>error := opt_prop d ''detail'', loading := False\<rparr>, [])) \<and>
   error_node (JStr ''Patient not found.'') = Some (NPar (NText ''Patient not found.'')) \<and>
   surfaced (handleSearch_resume (Rejected None) s) \<and>
   (\<not> truthy (opt_prop d ''detail'') \<longrightarrow> surfaced (handleSearch_resume (Rejected (Some d)) s)) \<and>
   (opt_prop d ''detail'' = JStr m \<and> m \<noteq> [] \<longrightarrow>
      error_node (error (fst (handleSearch_resume (Rejected (Some d)) s))) =
        Some (NPar (NText m)) \<and>
      surfaced (handleSearch_resume (Rejected (Some d)) s)) \<and>
   (opt_prop d ''detail'' = JNum n \<and> n \<noteq> 0 \<longrightarrow>
      error_node (error (fst (handleSearch_resume (Rejected (Some d)) s))) =
        Some (NPar (NNumber n)) \<and>
      surfaced (handleSearch_resume (Rejected (Some d)) s)) \<and>
   (opt_prop d ''detail'' = JObj kvs \<longrightarrow>
      error_node (error (fst (handleSearch_resume (Rejected (Some d)) s))) = None \<and>
      \<not> surfaced (handleSearch_resume (Rejected (Some d)) s)) \<and>
   (opt_prop d ''detail'' = JBool True \<longrightarrow>
      error_node (error (fst (handleSearch_resume (Rejected (Some d)) s))) =
        Some (NPar NNothing) \<and>
      \<not> surfaced (handleSearch_resume (Rejected (Some d)) s)) \<and>
   fetchSortedPatients_resume (Rejected err) s =
     (s\<lparr>loading := False\<rparr>,
      [ConsoleError [LogVal (JStr ''Error fetching sorted:''), LogExn (AxiosError err)]]) \<and>
   (surfaced (fetchSortedPatients_resume (Rejected err) s) \<longleftrightarrow> message_shown (error s))"
proof -
  have c: "snd (updatePatient_resume (Rejected err) s) = [Alert ''Failed to update patient.'']"
    "surfaced (updatePatient_resume (Rejected err) s)"
    by (simp_all add: updatePatient_resume_def surfaced_def)
  have d: "snd (deletePatient_resume (Rejected err) s) = [Alert ''Deletion failed.'']"
    "surfaced (deletePatient_resume (Rejected err) s)"
    by (simp_all add: deletePatient_resume_def surfaced_def)
  have e: "snd (handleSubmit_resume (Rejected err) h) =
     [Alert ''Submission failed'', ConsoleError [LogExn (AxiosError err)]]"
    "list_ex is_alert (snd (handleSubmit_resume (Rejected err) h))"
    by (simp_all add: handleSubmit_resume_def)
  have f: "fetchSortedPatients_resume (Rejected err) s =
     (s\<lparr>loading := False\<rparr>,
      [ConsoleError [LogVal (JStr ''Error fetching sorted:''), LogExn (AxiosError err)]])"
    "surfaced (fetchSortedPatients_resume (Rejected err) s) \<longleftrightarrow> message_shown (error s)"
    by (simp_all add: fetchSortedPatients_resume_def surfaced_def)
  have g: "handleSearch_resume (Rejected None) s =
     (s\<lparr>error := JStr ''Patient not found.'', loading := False\<rparr>, [])"
    by (rule failed_search_state(1))
  have h1: "surfaced (handleSearch_resume (Rejected None) s)"
    by (simp add: failed_search_state surfaced_def message_shown_cases)
  have h2: "\<not> truthy (opt_prop d ''detail'') \<longrightarrow> surfaced (handleSearch_resume (Rejected (Some d)) s)"
    by (simp add: failed_search_state surfaced_def message_shown_cases)
  have h3: "opt_prop d ''detail'' = JStr m \<and> m \<noteq> [] \<longrightarrow>
      error_node (error (fst (handleSearch_resume (Rejected (Some d)) s))) =
        Some (NPar (NText m)) \<and>
      surfaced (handleSearch_resume (Rejected (Some d)) s)"
    by (auto simp: failed_search_state surfaced_def message_shown_cases)
  have h4: "opt_prop d ''detail'' = JNum n \<and> n \<noteq> 0 \<longrightarrow>
      error_node (error (fst (handleSearch_resume (Rejected (Some d)) s))) =
        Some (NPar (NNumber n)) \<and>
      surfaced (handleSearch_resume (Rejected (Some d)) s)"
    by (auto simp: failed_search_state surfaced_def message_shown_cases)
  have h5: "opt_prop d ''detail'' = JObj kvs \<longrightarrow>
      error_node (error (fst (handleSearch_resume (Rejected (Some d)) s))) = None \<and>
      \<not> surfaced (handleSearch_resume (Rejected (Some d)) s)"
    by (auto simp: failed_search_state surfaced_def message_shown_cases)
  have h6: "opt_prop d ''detail'' = JBool True \<longrightarrow>
      error_node (error (fst (handleSearch_resume (Rejected (Some d)) s))) =
        Some (NPar NNothing) \<and>
      \<not> surfaced (handleSearch_resume (Rejected (Some d)) s)"
    by (auto simp: failed_search_state surfaced_def message_shown_cases)
  have k: "\<not> truthy (opt_prop d ''detail'') \<longrightarrow>
      handleSearch_resume (Rejected (Some d)) s =
        (s\<lparr>error := JStr ''Patient not found.'', loading := False\<rparr>, [])"
    "truthy (opt_prop d ''detail'') \<longrightarrow>
      handleSearch_resume (Rejected (Some d)) s =
        (s\<lparr>error := opt_prop d ''detail'', loading := False\<rparr>, [])"
    by (simp_all add: failed_search_state)
  show ?thesis
    by (intro conjI c d e f g k message_shown_cases(1) h1 h2 h3 h4 h5 h6)
qed

theorem failure_surfaced_except_sorting_witness:
  "opt_prop (JObj [(''detail'', JStr ''No such patient'')]) ''detail'' = JStr ''No such patient'' \<and>
   handleSearch_resume (Rejected (Some (JObj [(''detail'', JStr ''No such patient'')])))
       PatientUI_init =
     (PatientUI_init\<lparr>error := JStr ''No such patient'', loading := False\<rparr>, []) \<and>
   surfaced (handleSearch_resume (Rejected (Some (JObj [(''detail'', JStr ''No such patient'')])))
       PatientUI_init) \<and>
   \<not> truthy (opt_prop (JObj [(''detail'', JStr [])]) ''detail'') \<and>
   handleSearch_resume (Rejected (Some (JObj [(''detail'', JStr [])]))) PatientUI_init =
     (PatientUI_init\<lparr>error := JStr ''Patient not found.'', loading := False\<rparr>, []) \<and>
   surfaced (handleSearch_resume (Rejected (Some (JObj [(''detail'', JStr [])]))) PatientUI_init) \<and>
   opt_prop (JObj [(''detail'', JObj [(''msg'', JStr ''x'')])]) ''detail'' =
     JObj [(''msg'', JStr ''x'')] \<and>
   \<not> surfaced (handleSearch_resume
        (Rejected (Some (JObj [(''detail'', JObj [(''msg'', JStr ''x'')])]))) PatientUI_init) \<and>
   \<not> message_shown (error PatientUI_init) \<and>
   \<not> surfaced (fetchSortedPatients_resume (Rejected None) PatientUI_init)"
proof -
  have p1: "opt_prop (JObj [(''detail'', JStr ''No such patient'')]) ''detail'' =
      JStr ''No such patient''"
    and p2: "\<not> truthy (opt_prop (JObj [(''detail'', JStr [])]) ''detail'')"
    and p3: "opt_prop (JObj [(''detail'', JObj [(''msg'', JStr ''x'')])]) ''detail'' =
      JObj [(''msg'', JStr ''x'')]"
    by (simp_all add: opt_prop_def)
  have n: "\<not> message_shown (error PatientUI_init)"
    by (simp add: PatientUI_init_def message_shown_def error_node_def)
  note A = failure_surfaced_except_sorting
      [of None PatientUI_init Home_init "JObj [(''detail'', JStr ''No such patient'')]"
          "''No such patient''"]
  note B = failure_surfaced_except_sorting
      [of None PatientUI_init Home_init "JObj [(''detail'', JStr [])]"]
  note C = failure_surfaced_except_sorting
      [of None PatientUI_init Home_init "JObj [(''detail'', JObj [(''msg'', JStr ''x'')])]"
          _ _ "[(''msg'', JStr ''x'')]"]
  have t1: "truthy (opt_prop (JObj [(''detail'', JStr ''No such patient'')]) ''detail'')"
    and m1: "''No such patient'' \<noteq> []"
    by (simp_all add: p1)
  from A t1 have "handleSearch_resume
      (Rejected (Some (JObj [(''detail'', JStr ''No such patient'')]))) PatientUI_init =
     (PatientUI_init\<lparr>error := opt_prop (JObj [(''detail'', JStr ''No such patient'')]) ''detail'',
        loading := False\<rparr>, [])"
    by blast
  then have a1: "handleSearch_resume
      (Rejected (Some (JObj [(''detail'', JStr ''No such patient'')]))) PatientUI_init =
     (PatientUI_init\<lparr>error := JStr ''No such patient'', loading := False\<rparr>, [])"
    by (simp only: p1)
  from A p1 m1 have a2: "surfaced (handleSearch_resume
      (Rejected (Some (JObj [(''detail'', JStr ''No such patient'')]))) PatientUI_init)"
    by blast
  note a = a1 a2
  from B p2 have b: "handleSearch_resume (Rejected (Some (JObj [(''detail'', JStr [])])))
      PatientUI_init =
     (PatientUI_init\<lparr>error := JStr ''Patient not found.'', loading := False\<rparr>, [])"
    "surfaced (handleSearch_resume (Rejected (Some (JObj [(''detail'', JStr [])]))) PatientUI_init)"
    by blast+
  from C p3 have c: "\<not> surfaced (handleSearch_resume
        (Rejected (Some (JObj [(''detail'', JObj [(''msg'', JStr ''x'')])]))) PatientUI_init)"
    by blast
  from A n have d: "\<not> surfaced (fetchSortedPatients_resume (Rejected None) PatientUI_init)"
    by blast
  from p1 p2 p3 a b c d n show ?thesis by (intro conjI)
qed

text \<open>
  Claim C2 as stated (no operation's error path is silent) fails for sorting: the first
  fetch of the freshly mounted page fails with no answer from the server, and the state
  is the initial one again, with one line on the console, no alert and no message.
\<close>

theorem sorting_failure_silent_counterexample:
  "\<not> surfaced (fetchSortedPatients_resume (Rejected None)
        (fst (fetchSortedPatients_start PatientUI_init))) \<and>
   fetchSortedPatients_resume (Rejected None) (fst (fetchSortedPatients_start PatientUI_init)) =
     (PatientUI_init,
      [ConsoleError [LogVal (JStr ''Error fetching sorted:''), LogExn (AxiosError None)]])"
  by (simp add: surfaced_def message_shown_def error_node_def fetchSortedPatients_resume_def
        fetchSortedPatients_start_def PatientUI_init_def)

section \<open>Rendered values\<close>

lemma get_prop_opt: "get_prop d k = Inr v \<Longrightarrow> v = opt_prop d k"
  by (simp add: opt_prop_def)

lemma get_props_fields:
  "get_props d ks = Inr kvs \<Longrightarrow> kvs = map (\<lambda>k. (k, opt_prop d k)) ks"
  by (induction ks arbitrary: kvs) (auto split: sum.splits dest: get_prop_opt)

lemma collect_cards:
  "collect (map (\<lambda>p. get_props p ks) xs) = Inr ys \<Longrightarrow>
     ys = map (\<lambda>p. map (\<lambda>k. (k, opt_prop p k)) ks) xs"
  by (induction xs arbitrary: ys) (auto split: sum.splits dest: get_props_fields)

lemma singlePatient_resume:
  "singlePatient (fst (resume k r s)) \<in>
     insert (singlePatient s) (insert JNull (set (delivered [Settle i r])))"
  by (cases k; cases r) (simp_all add: resume_defs split: sum.splits)

lemma patients_resume:
  "patients (fst (resume k r s)) \<in> insert (patients s) (set (delivered [Settle i r]))"
  by (cases k; cases r) (simp_all add: resume_defs split: sum.splits)

lemma singlePatient_step:
  "singlePatient (ui (step e w)) \<in>
     insert (singlePatient (ui w)) (insert JNull (set (delivered [e])))"
proof (cases e)
  case (Settle i r)
  then show ?thesis
    using singlePatient_resume [of "fst (pending w ! i)" r "ui w" i]
    by (simp add: step_def launch_def)
qed (simp_all add: step_def launch_def start_defs handleUpdateChange_def)

lemma patients_step:
  "patients (ui (step e w)) \<in> insert (patients (ui w)) (set (delivered [e]))"
proof (cases e)
  case (Settle i r)
  then show ?thesis
    using patients_resume [of "fst (pending w ! i)" r "ui w" i]
    by (simp add: step_def launch_def)
qed (simp_all add: step_def launch_def start_defs handleUpdateChange_def)

lemma delivered_Cons: "set (delivered (e # es)) = set (delivered [e]) \<union> set (delivered es)"
  by (cases "(e # es)" rule: delivered.cases) auto

lemma singlePatient_run:
  "singlePatient (ui (run es w)) \<in>
     insert (singlePatient (ui w)) (insert JNull (set (delivered es)))"
proof (induction es arbitrary: w)
  case Nil
  then show ?case by simp
next
  case (Cons e es)
  from Cons.IH [of "step e w"] singlePatient_step [of e w]
  show ?case unfolding delivered_Cons [of e es] by auto
qed

lemma patients_run:
  "patients (ui (run es w)) \<in> insert (patients (ui w)) (set (delivered es))"
proof (induction es arbitrary: w)
  case Nil
  then show ?case by simp
next
  case (Cons e es)
  from Cons.IH [of "step e w"] patients_step [of e w]
  show ?case unfolding delivered_Cons [of e es] by auto
qed

lemma mounted_fields:
  "singlePatient (ui PatientUI_mounted) = JNull" "patients (ui PatientUI_mounted) = JArr []"
  by (simp_all add: PatientUI_mounted_def launch_def fetchSortedPatients_start_def
        PatientUI_init_def)

lemma render_panel:
  "render s = Inr v \<Longrightarrow> v_panel v = Some pn \<Longrightarrow>
     truthy (singlePatient s) \<and> pn = map (\<lambda>k. (k, opt_prop (singlePatient s) k)) panel_keys"
  by (auto simp: render_def split: if_splits sum.splits dest: get_props_fields)

lemma render_cards_view:
  "render s = Inr v \<Longrightarrow>
     v_cards v = [] \<or>
     (\<exists>ps. patients s = JArr ps \<and>
        v_cards v = map (\<lambda>p. map (\<lambda>k. (k, opt_prop p k)) card_keys) ps)"
  by (auto simp: render_def render_cards_def split: if_splits sum.splits jsval.splits
        dest: collect_cards)

text \<open>
  Claim C3. In every world reachable from the mounted page, whenever the page renders,
  the patient panel holds exactly the fields of a response body the server has
  delivered, its \<^verbatim>\<open>bmi\<close> and \<^verbatim>\<open>verdict\<close> among them, and the cards are, in order, the
  fields of the elements of a delivered array: no value shown is computed by the client.
\<close>

theorem rendered_bmi_verdict_from_server:
  assumes "render (ui (run es PatientUI_mounted)) = Inr v"
  shows "(\<forall>pn. v_panel v = Some pn \<longrightarrow>
            (\<exists>d \<in> set (delivered es).
               pn = map (\<lambda>k. (k, opt_prop d k)) panel_keys \<and>
               map_of pn ''bmi'' = Some (opt_prop d ''bmi'') \<and>
               map_of pn ''verdict'' = Some (opt_prop d ''verdict''))) \<and>
         (v_cards v = [] \<or>
            (\<exists>ps. JArr ps \<in> set (delivered es) \<and>
               v_cards v = map (\<lambda>p. map (\<lambda>k. (k, opt_prop p k)) card_keys) ps \<and>
               map (\<lambda>c. map_of c ''bmi'') (v_cards v) = map (\<lambda>p. Some (opt_prop p ''bmi'')) ps \<and>
               map (\<lambda>c. map_of c ''verdict'') (v_cards v) =
                 map (\<lambda>p. Some (opt_prop p ''verdict'')) ps))"
proof (intro conjI allI impI)
  fix pn assume pn: "v_panel v = Some pn"
  let ?s = "ui (run es PatientUI_mounted)"
  from render_panel [OF assms pn]
  have t: "truthy (singlePatient ?s)"
    and eq: "pn = map (\<lambda>k. (k, opt_prop (singlePatient ?s) k)) panel_keys" by simp_all
  from t have "singlePatient ?s \<noteq> JNull" by auto
  with singlePatient_run [of es PatientUI_mounted] mounted_fields(1)
  have "singlePatient ?s \<in> set (delivered es)" by auto
  moreover have "map_of pn ''bmi'' = Some (opt_prop (singlePatient ?s) ''bmi'')"
    by (simp add: eq panel_keys_def)
  moreover have "map_of pn ''verdict'' = Some (opt_prop (singlePatient ?s) ''verdict'')"
    by (simp add: eq panel_keys_def)
  ultimately show "\<exists>d \<in> set (delivered es).
               pn = map (\<lambda>k. (k, opt_prop d k)) panel_keys \<and>
               map_of pn ''bmi'' = Some (opt_prop d ''bmi'') \<and>
               map_of pn ''verdict'' = Some (opt_prop d ''verdict'')"
    using eq by blast
next
  let ?s = "ui (run es PatientUI_mounted)"
  from render_cards_view [OF assms]
  consider "v_cards v = []"
    | ps where "patients ?s = JArr ps"
        "v_cards v = map (\<lambda>p. map (\<lambda>k. (k, opt_prop p k)) card_keys) ps"
    by blast
  then show "v_cards v = [] \<or>
            (\<exists>ps. JArr ps \<in> set (delivered es) \<and>
               v_cards v = map (\<lambda>p. map (\<lambda>k. (k, opt_prop p k)) card_keys) ps \<and>
               map (\<lambda>c. map_of c ''bmi'') (v_cards v) = map (\<lambda>p. Some (opt_prop p ''bmi'')) ps \<and>
               map (\<lambda>c. map_of c ''verdict'') (v_cards v) =
                 map (\<lambda>p. Some (opt_prop p ''verdict'')) ps)"
  proof cases
    case 1
    then show ?thesis by simp
  next
    case 2
    show ?thesis
    proof (cases ps)
      case Nil
      with 2 show ?thesis by simp
    next
      case (Cons p ps')
      with 2 patients_run [of es PatientUI_mounted] mounted_fields(2)
      have "JArr ps \<in> set (delivered es)" by auto
      moreover have "map (\<lambda>c. map_of c ''bmi'') (v_cards v) =
          map (\<lambda>p. Some (opt_prop p ''bmi'')) ps"
        by (simp add: 2 card_keys_def comp_def)
      moreover have "map (\<lambda>c. map_of c ''verdict'') (v_cards v) =
          map (\<lambda>p. Some (opt_prop p ''verdict'')) ps"
        by (simp add: 2 card_keys_def comp_def)
      ultimately show ?thesis using 2 by blast
    qed
  qed
qed

theorem rendered_bmi_verdict_from_server_witness:
  "render (ui (run [TypePatientId ''P001'', ClickSearch,
                    Settle 1 (Resolved (JObj [(''name'', JStr ''A''), (''bmi'', JNum 22),
                                              (''verdict'', JStr ''Normal'')])),
                    Settle 0 (Resolved (JArr [JObj [(''name'', JStr ''B''), (''bmi'', JNum 31),
                                                    (''verdict'', JStr ''Obese'')]]))]
                PatientUI_mounted)) =
     Inr \<lparr> v_patientId = ''P001'', v_error = None,
           v_panel = Some [(''name'', JStr ''A''), (''city'', JUndefined), (''age'', JUndefined),
                           (''gender'', JUndefined), (''height'', JUndefined),
                           (''weight'', JUndefined), (''bmi'', JNum 22),
                           (''verdict'', JStr ''Normal'')],
           v_edit_form = Some [(''name'', JStr ''A''), (''city'', JUndefined),
                               (''age'', JUndefined), (''gender'', JUndefined),
                               (''height'', JUndefined), (''weight'', JUndefined)],
           v_sortBy = ''height'', v_order = ''asc'', v_loading = False,
           v_cards = [[(''name'', JStr ''B''), (''height'', JUndefined), (''weight'', JUndefined),
                       (''bmi'', JNum 31), (''verdict'', JStr ''Obese'')]] \<rparr> \<and>
   (\<exists>d \<in> set (delivered [TypePatientId ''P001'', ClickSearch,
                    Settle 1 (Resolved (JObj [(''name'', JStr ''A''), (''bmi'', JNum 22),
                                              (''verdict'', JStr ''Normal'')])),
                    Settle 0 (Resolved (JArr [JObj [(''name'', JStr ''B''), (''bmi'', JNum 31),
                                                    (''verdict'', JStr ''Obese'')]]))]).
      opt_prop d ''bmi'' = JNum 22 \<and> opt_prop d ''verdict'' = JStr ''Normal'')"
  (is "?r = Inr ?v \<and> ?c")
proof -
  have r: "?r = Inr ?v"
    by (simp add: PatientUI_mounted_def PatientUI_init_def step_def launch_def start_defs
          resume_defs request_defs render_def render_cards_def update_keys_def panel_keys_def
          card_keys_def opt_prop_def)
  have p: "v_panel ?v = Some [(''name'', JStr ''A''), (''city'', JUndefined), (''age'', JUndefined),
                           (''gender'', JUndefined), (''height'', JUndefined),
                           (''weight'', JUndefined), (''bmi'', JNum 22),
                           (''verdict'', JStr ''Normal'')]"
    by simp
  from rendered_bmi_verdict_from_server [OF r] p have ?c by auto
  with r show ?thesis by blast
qed

section \<open>Request bodies\<close>

text \<open>
  Claim C4. The body of the \<^verbatim>\<open>PUT\<close> request of \<^verbatim>\<open>updatePatient\<close> is the current
  \<^verbatim>\<open>updateData\<close> object and the body of the \<^verbatim>\<open>POST\<close> request of \<^verbatim>\<open>handleSubmit\<close> is
  the current \<^verbatim>\<open>formData\<close> object, as they are; issuing the request changes neither.
\<close>

theorem mutating_bodies_forwarded:
  "snd (updatePatient_start s) = [Http (edit_request (patientId s) (updateData s))] \<and>
   http_verb (edit_request (patientId s) (updateData s)) = PUT \<and>
   url (edit_request (patientId s) (updateData s)) = ''http://127.0.0.1:8000/edit/'' @ patientId s \<and>
   body (edit_request (patientId s) (updateData s)) = Some (JObj (updateData s)) \<and>
   fst (updatePatient_start s) = s \<and>
   snd (handleSubmit_start h) = [PreventDefault, Http (created_request (formData h))] \<and>
   http_verb (created_request (formData h)) = POST \<and>
   url (created_request (formData h)) = ''http://127.0.0.1:8000/created'' \<and>
   body (created_request (formData h)) = Some (JObj (formData h)) \<and>
   formData (fst (handleSubmit_start h)) = formData h \<and>
   (truthy (singlePatient (ui w)) \<longrightarrow>
      issued ClickUpdate w = [edit_request (patientId (ui w)) (updateData (ui w))]) \<and>
   (\<not> loadingH (hui w') \<longrightarrow> hissued HSubmit w' = [created_request (formData (hui w'))])"
  by (simp add: updatePatient_start_def handleSubmit_start_def request_defs
        issued_def hissued_def step_def hstep_def launch_def hlaunch_def)

theorem mutating_bodies_forwarded_witness:
  "truthy (singlePatient (ui \<lparr>ui = PatientUI_init\<lparr>singlePatient := JObj []\<rparr>, pending = [], trace = []\<rparr>)) \<and>
   issued ClickUpdate \<lparr>ui = PatientUI_init\<lparr>singlePatient := JObj []\<rparr>, pending = [], trace = []\<rparr> =
     [edit_request [] (updateData PatientUI_init)] \<and>
   \<not> loadingH (hui Home_mounted) \<and>
   hissued HSubmit Home_mounted = [created_request empty_form]"
  using mutating_bodies_forwarded
          [of _ _ "\<lparr>ui = PatientUI_init\<lparr>singlePatient := JObj []\<rparr>, pending = [], trace = []\<rparr>"
              Home_mounted]
  by (simp add: PatientUI_init_def Home_mounted_def Home_init_def)

section \<open>Sorting\<close>

lemma sort_resume: "sortBy (fst (resume k r s)) = sortBy s \<and> order (fst (resume k r s)) = order s"
  by (cases k; cases r) (simp_all add: resume_defs split: sum.splits)

lemma sort_inv_step: "sort_inv w \<Longrightarrow> sort_inv (step e w)"
proof (cases e)
  case (Settle i r)
  assume "sort_inv w"
  with Settle sort_resume [of "fst (pending w ! i)" r "ui w"] show ?thesis
    by (simp add: sort_inv_def step_def launch_def)
qed (auto simp: sort_inv_def step_def launch_def start_defs handleUpdateChange_def)

lemma sort_inv_run: "sort_inv w \<Longrightarrow> sort_inv (run es w)"
  by (induction es arbitrary: w) (simp_all add: sort_inv_step)

lemma sort_inv_mounted: "sort_inv PatientUI_mounted"
  by (simp add: sort_inv_def PatientUI_mounted_def launch_def fetchSortedPatients_start_def
        PatientUI_init_def sortBy_options_def order_options_def)

text \<open>
  Claim C5. The page offers the sort keys \<^verbatim>\<open>height\<close>, \<^verbatim>\<open>weight\<close> and \<^verbatim>\<open>bmi\<close> and the
  orders \<^verbatim>\<open>asc\<close> and \<^verbatim>\<open>desc\<close>, and no others ever become the state;
  \<^verbatim>\<open>fetchSortedPatients\<close> sends the current key as \<^verbatim>\<open>sort_by\<close> and the current order as
  \<^verbatim>\<open>order\<close> to \<^verbatim>\<open>GET /sort\<close>, selecting a new key or order sends the new one, and a
  successful answer replaces \<^verbatim>\<open>patients\<close> by the response data.
\<close>

theorem sorting_keys_and_orders:
  "sortBy_options = [''height'', ''weight'', ''bmi''] \<and>
   order_options = [''asc'', ''desc''] \<and>
   (offered w (SelectSortBy v) \<longleftrightarrow> v \<in> {''height'', ''weight'', ''bmi''}) \<and>
   (offered w (SelectOrder v) \<longleftrightarrow> v \<in> {''asc'', ''desc''}) \<and>
   sortBy (ui (run es PatientUI_mounted)) \<in> {''height'', ''weight'', ''bmi''} \<and>
   order (ui (run es PatientUI_mounted)) \<in> {''asc'', ''desc''} \<and>
   snd (fetchSortedPatients_start s) = [Http (sort_request (sortBy s) (order s))] \<and>
   http_verb (sort_request (sortBy s) (order s)) = GET \<and>
   url (sort_request (sortBy s) (order s)) = ''http://127.0.0.1:8000/sort'' \<and>
   params (sort_request (sortBy s) (order s)) = [(''sort_by'', sortBy s), (''order'', order s)] \<and>
   patients (fst (fetchSortedPatients_resume (Resolved d) s)) = d \<and>
   (v \<in> set sortBy_options \<and> v \<noteq> sortBy (ui w) \<longrightarrow>
      issued (SelectSortBy v) w = [sort_request v (order (ui w))]) \<and>
   (v \<in> set order_options \<and> v \<noteq> order (ui w) \<longrightarrow>
      issued (SelectOrder v) w = [sort_request (sortBy (ui w)) v]) \<and>
   issued ClickApply w = [sort_request (sortBy (ui w)) (order (ui w))]"
proof -
  have a: "sortBy (ui (run es PatientUI_mounted)) \<in> {''height'', ''weight'', ''bmi''}"
    "order (ui (run es PatientUI_mounted)) \<in> {''asc'', ''desc''}"
    using sort_inv_run [OF sort_inv_mounted, of es]
    by (simp_all add: sort_inv_def sortBy_options_def order_options_def)
  have b: "offered w (SelectSortBy v) \<longleftrightarrow> v \<in> {''height'', ''weight'', ''bmi''}"
    "offered w (SelectOrder v) \<longleftrightarrow> v \<in> {''asc'', ''desc''}"
    by (simp_all add: sortBy_options_def order_options_def)
  have c: "snd (fetchSortedPatients_start s) = [Http (sort_request (sortBy s) (order s))]"
    "patients (fst (fetchSortedPatients_resume (Resolved d) s)) = d"
    by (simp_all add: fetchSortedPatients_start_def fetchSortedPatients_resume_def)
  have d: "v \<in> set sortBy_options \<and> v \<noteq> sortBy (ui w) \<longrightarrow>
      issued (SelectSortBy v) w = [sort_request v (order (ui w))]"
    by (simp add: issued_def step_def launch_def fetchSortedPatients_start_def)
  have e: "v \<in> set order_options \<and> v \<noteq> order (ui w) \<longrightarrow>
      issued (SelectOrder v) w = [sort_request (sortBy (ui w)) v]"
    by (simp add: issued_def step_def launch_def fetchSortedPatients_start_def)
  have f: "issued ClickApply w = [sort_request (sortBy (ui w)) (order (ui w))]"
    by (simp add: issued_def step_def launch_def fetchSortedPatients_start_def)
  show ?thesis
    by (intro conjI a b c d e f request_shapes sortBy_options_def order_options_def)
qed

theorem sorting_keys_and_orders_witness:
  "''bmi'' \<in> set sortBy_options \<and> ''bmi'' \<noteq> sortBy (ui PatientUI_mounted) \<and>
   issued (SelectSortBy ''bmi'') PatientUI_mounted = [sort_request ''bmi'' ''asc''] \<and>
   ''desc'' \<in> set order_options \<and> ''desc'' \<noteq> order (ui PatientUI_mounted) \<and>
   issued (SelectOrder ''desc'') PatientUI_mounted = [sort_request ''height'' ''desc'']"
proof -
  have m: "sortBy (ui PatientUI_mounted) = ''height''" "order (ui PatientUI_mounted) = ''asc''"
    by (simp_all add: PatientUI_mounted_def launch_def fetchSortedPatients_start_def
          PatientUI_init_def)
  have a: "''bmi'' \<in> set sortBy_options \<and> ''bmi'' \<noteq> sortBy (ui PatientUI_mounted)"
    by (simp add: m sortBy_options_def)
  have b: "''desc'' \<in> set order_options \<and> ''desc'' \<noteq> order (ui PatientUI_mounted)"
    by (simp add: m order_options_def)
  from sorting_keys_and_orders [of PatientUI_mounted "''bmi''"] a
  have c: "issued (SelectSortBy ''bmi'') PatientUI_mounted = [sort_request ''bmi'' ''asc'']"
    by (simp add: m)
  from sorting_keys_and_orders [of PatientUI_mounted "''desc''"] b
  have d: "issued (SelectOrder ''desc'') PatientUI_mounted = [sort_request ''height'' ''desc'']"
    by (simp add: m)
  from a b c d show ?thesis by simp
qed

section \<open>Creation\<close>

lemma empty_inputs_valid:
  "typed (age_input f) = [] \<Longrightarrow> typed (height_input f) = [] \<Longrightarrow> typed (weight_input f) = [] \<Longrightarrow>
     constraint_valid f"
  by (simp add: constraint_valid_def bad_input_def step_mismatch_def parse_float_def
        split_at_def)

lemma bad_input_invalid:
  "bad_input (age_input f) \<or> bad_input (height_input f) \<or> bad_input (weight_input f) \<Longrightarrow>
     \<not> constraint_valid f"
  by (auto simp: constraint_valid_def)

lemma step_mismatch_invalid:
  "step_mismatch 1 (age_input f) \<or> step_mismatch (1 / 100) (height_input f) \<or>
   step_mismatch 1 (weight_input f) \<Longrightarrow> \<not> constraint_valid f"
  by (auto simp: constraint_valid_def)

lemma attempt_cases:
  "constraint_valid f \<and> \<not> loadingH (hui w) \<Longrightarrow>
     attempt_issued f w = [created_request (formData (hui w))]"
  "\<not> constraint_valid f \<or> loadingH (hui w) \<Longrightarrow> attempt_submit f w = w \<and> attempt_issued f w = []"
  by (auto simp: attempt_issued_def attempt_submit_def hstep_def hlaunch_def
        handleSubmit_start_def)

text \<open>
  Claim C6, amended. \<^verbatim>\<open>handleSubmit\<close> itself checks nothing: whenever the submit event
  reaches it, it posts whatever \<^verbatim>\<open>formData\<close> holds to \<^verbatim>\<open>/created\<close>, the form of empty
  strings included, and no field has to be present. What can block creation stands
  before the handler: the submit button is disabled while \<^verbatim>\<open>loading\<close>, and the browser
  dispatches the submit event only if the number inputs \<^verbatim>\<open>age\<close>, \<^verbatim>\<open>height\<close> and \<^verbatim>\<open>weight\<close>
  are valid (their text is empty or a number, and the number is on the step grid: step 1
  for \<^verbatim>\<open>age\<close> and \<^verbatim>\<open>weight\<close>, 0.01 for \<^verbatim>\<open>height\<close>).
\<close>

theorem create_checked_only_by_browser:
  "handleSubmit_start s =
     (s\<lparr>loadingH := True\<rparr>, [PreventDefault, Http (created_request (formData s))]) \<and>
   http_verb (created_request (formData s)) = POST \<and>
   url (created_request (formData s)) = ''http://127.0.0.1:8000/created'' \<and>
   body (created_request (formData s)) = Some (JObj (formData s)) \<and>
   requests_of (snd (handleSubmit_start (s\<lparr>formData := map (\<lambda>k. (k, JStr [])) form_keys\<rparr>))) =
     [created_request (map (\<lambda>k. (k, JStr [])) form_keys)] \<and>
   (constraint_valid f \<and> \<not> loadingH (hui w) \<longrightarrow>
      attempt_issued f w = [created_request (formData (hui w))]) \<and>
   (\<not> constraint_valid f \<or> loadingH (hui w) \<longrightarrow>
      attempt_submit f w = w \<and> attempt_issued f w = []) \<and>
   (typed (age_input f) = [] \<and> typed (height_input f) = [] \<and> typed (weight_input f) = [] \<longrightarrow>
      constraint_valid f) \<and>
   (bad_input (age_input f) \<or> bad_input (height_input f) \<or> bad_input (weight_input f) \<longrightarrow>
      \<not> constraint_valid f) \<and>
   (step_mismatch 1 (age_input f) \<or> step_mismatch (1 / 100) (height_input f) \<or>
    step_mismatch 1 (weight_input f) \<longrightarrow> \<not> constraint_valid f)"
proof -
  have a: "handleSubmit_start s =
     (s\<lparr>loadingH := True\<rparr>, [PreventDefault, Http (created_request (formData s))])"
    "requests_of (snd (handleSubmit_start (s\<lparr>formData := map (\<lambda>k. (k, JStr [])) form_keys\<rparr>))) =
     [created_request (map (\<lambda>k. (k, JStr [])) form_keys)]"
    by (simp_all add: handleSubmit_start_def)
  have b: "body (created_request (formData s)) = Some (JObj (formData s))"
    by (simp add: created_request_def)
  from a b request_shapes(10,11) [of "formData s"] attempt_cases [of f w]
    empty_inputs_valid [of f] bad_input_invalid [of f] step_mismatch_invalid [of f]
  show ?thesis by blast
qed

theorem create_checked_only_by_browser_witness:
  "constraint_valid
     \<lparr> age_input = \<lparr>typed = [], value_attr = []\<rparr>,
       height_input = \<lparr>typed = [], value_attr = []\<rparr>,
       weight_input = \<lparr>typed = [], value_attr = []\<rparr> \<rparr> \<and>
   \<not> loadingH (hui Home_mounted) \<and>
   formData (hui Home_mounted) =
     [(''id'', JStr []), (''name'', JStr []), (''gender'', JStr []), (''city'', JStr []),
      (''age'', JStr []), (''height'', JStr []), (''weight'', JStr [])] \<and>
   attempt_issued
     \<lparr> age_input = \<lparr>typed = [], value_attr = []\<rparr>,
       height_input = \<lparr>typed = [], value_attr = []\<rparr>,
       weight_input = \<lparr>typed = [], value_attr = []\<rparr> \<rparr> Home_mounted =
     [created_request (formData (hui Home_mounted))] \<and>
   constraint_valid
     \<lparr> age_input = \<lparr>typed = ''30'', value_attr = []\<rparr>,
       height_input = \<lparr>typed = ''1.75'', value_attr = []\<rparr>,
       weight_input = \<lparr>typed = ''65'', value_attr = []\<rparr> \<rparr> \<and>
   attempt_issued
     \<lparr> age_input = \<lparr>typed = ''30'', value_attr = []\<rparr>,
       height_input = \<lparr>typed = ''1.75'', value_attr = []\<rparr>,
       weight_input = \<lparr>typed = ''65'', value_attr = []\<rparr> \<rparr>
     (hrun [HChange ''age'' ''30'', HChange ''height'' ''1.75'', HChange ''weight'' ''65'']
        Home_mounted) =
     [created_request
        [(''id'', JStr []), (''name'', JStr []), (''gender'', JStr []), (''city'', JStr []),
         (''age'', JStr ''30''), (''height'', JStr ''1.75''), (''weight'', JStr ''65'')]] \<and>
   bad_input \<lparr>typed = ''1e'', value_attr = []\<rparr> \<and>
   \<not> constraint_valid
     \<lparr> age_input = \<lparr>typed = ''1e'', value_attr = []\<rparr>,
       height_input = \<lparr>typed = [], value_attr = []\<rparr>,
       weight_input = \<lparr>typed = [], value_attr = []\<rparr> \<rparr>"
  (is "?v0 \<and> ?l \<and> ?fd \<and> ?i0 \<and> ?v1 \<and> ?i1 \<and> ?b \<and> ?n")
proof -
  have l: ?l and fd: ?fd
    by (simp_all add: Home_mounted_def Home_init_def empty_form_def form_keys_def)
  have v1: ?v1 by code_simp
  have b: ?b by code_simp
  have w1: "hui (hrun [HChange ''age'' ''30'', HChange ''height'' ''1.75'',
        HChange ''weight'' ''65''] Home_mounted) =
      \<lparr> formData =
          [(''id'', JStr []), (''name'', JStr []), (''gender'', JStr []), (''city'', JStr []),
           (''age'', JStr ''30''), (''height'', JStr ''1.75''), (''weight'', JStr ''65'')],
        loadingH = False \<rparr>"
    by (simp add: hstep_def handleChange_def Home_mounted_def Home_init_def empty_form_def
          form_keys_def)
  note T0 = create_checked_only_by_browser
      [of _ "\<lparr> age_input = \<lparr>typed = [], value_attr = []\<rparr>,
               height_input = \<lparr>typed = [], value_attr = []\<rparr>,
               weight_input = \<lparr>typed = [], value_attr = []\<rparr> \<rparr>" Home_mounted]
  have e0: "typed (age_input \<lparr> age_input = \<lparr>typed = [], value_attr = []\<rparr>,
               height_input = \<lparr>typed = [], value_attr = []\<rparr>,
               weight_input = \<lparr>typed = [], value_attr = []\<rparr> \<rparr>) = []"
    "typed (height_input \<lparr> age_input = \<lparr>typed = [], value_attr = []\<rparr>,
               height_input = \<lparr>typed = [], value_attr = []\<rparr>,
               weight_input = \<lparr>typed = [], value_attr = []\<rparr> \<rparr>) = []"
    "typed (weight_input \<lparr> age_input = \<lparr>typed = [], value_attr = []\<rparr>,
               height_input = \<lparr>typed = [], value_attr = []\<rparr>,
               weight_input = \<lparr>typed = [], value_attr = []\<rparr> \<rparr>) = []"
    by simp_all
  from T0 e0 have v0: ?v0 by blast
  from T0 v0 l have i0: ?i0 by blast
  note T1 = create_checked_only_by_browser
      [of _ "\<lparr> age_input = \<lparr>typed = ''30'', value_attr = []\<rparr>,
               height_input = \<lparr>typed = ''1.75'', value_attr = []\<rparr>,
               weight_input = \<lparr>typed = ''65'', value_attr = []\<rparr> \<rparr>"
          "hrun [HChange ''age'' ''30'', HChange ''height'' ''1.75'', HChange ''weight'' ''65'']
             Home_mounted"]
  from w1 have l1: "\<not> loadingH (hui (hrun [HChange ''age'' ''30'', HChange ''height'' ''1.75'',
        HChange ''weight'' ''65''] Home_mounted))"
    by (simp only: Home_state.select_convs) simp
  from T1 v1 l1 have "attempt_issued
     \<lparr> age_input = \<lparr>typed = ''30'', value_attr = []\<rparr>,
       height_input = \<lparr>typed = ''1.75'', value_attr = []\<rparr>,
       weight_input = \<lparr>typed = ''65'', value_attr = []\<rparr> \<rparr>
     (hrun [HChange ''age'' ''30'', HChange ''height'' ''1.75'', HChange ''weight'' ''65'']
        Home_mounted) =
     [created_request (formData (hui (hrun [HChange ''age'' ''30'', HChange ''height'' ''1.75'',
        HChange ''weight'' ''65''] Home_mounted)))]"
    by blast
  then have i1: ?i1 by (simp only: w1 Home_state.select_convs)
  note T2 = create_checked_only_by_browser
      [of _ "\<lparr> age_input = \<lparr>typed = ''1e'', value_attr = []\<rparr>,
               height_input = \<lparr>typed = [], value_attr = []\<rparr>,
               weight_input = \<lparr>typed = [], value_attr = []\<rparr> \<rparr>" Home_mounted]
  from b have b': "bad_input (age_input
      \<lparr> age_input = \<lparr>typed = ''1e'', value_attr = []\<rparr>,
        height_input = \<lparr>typed = [], value_attr = []\<rparr>,
        weight_input = \<lparr>typed = [], value_attr = []\<rparr> \<rparr>)"
    by simp
  from T2 b' have n: ?n by blast
  from v0 l fd i0 v1 i1 b n show ?thesis by (intro conjI)
qed

text \<open>
  Claim C6 as stated (no field value check can block creation) fails. On the freshly
  mounted form every field of \<^verbatim>\<open>formData\<close> is the empty string; the user types \<^verbatim>\<open>-\<close> into
  \<^verbatim>\<open>age\<close>, which is no number, so the value the component sees stays empty, and submits:
  the browser reports bad input and no request is issued. The same happens with the
  weight \<^verbatim>\<open>65.5\<close>, which is a number but not on the input's step grid.
\<close>

theorem create_blocked_counterexample:
  "formData (hui Home_mounted) =
     [(''id'', JStr []), (''name'', JStr []), (''gender'', JStr []), (''city'', JStr []),
      (''age'', JStr []), (''height'', JStr []), (''weight'', JStr [])] \<and>
   \<not> loadingH (hui Home_mounted) \<and>
   dom_agrees
     \<lparr> age_input = \<lparr>typed = ''-'', value_attr = []\<rparr>,
       height_input = \<lparr>typed = [], value_attr = []\<rparr>,
       weight_input = \<lparr>typed = [], value_attr = []\<rparr> \<rparr> (hui Home_mounted) \<and>
   attempt_issued
     \<lparr> age_input = \<lparr>typed = ''-'', value_attr = []\<rparr>,
       height_input = \<lparr>typed = [], value_attr = []\<rparr>,
       weight_input = \<lparr>typed = [], value_attr = []\<rparr> \<rparr> Home_mounted = [] \<and>
   \<not> loadingH (hui (hrun [HChange ''weight'' ''65.5''] Home_mounted)) \<and>
   dom_agrees
     \<lparr> age_input = \<lparr>typed = [], value_attr = []\<rparr>,
       height_input = \<lparr>typed = [], value_attr = []\<rparr>,
       weight_input = \<lparr>typed = ''65.5'', value_attr = []\<rparr> \<rparr>
     (hui (hrun [HChange ''weight'' ''65.5''] Home_mounted)) \<and>
   attempt_issued
     \<lparr> age_input = \<lparr>typed = [], value_attr = []\<rparr>,
       height_input = \<lparr>typed = [], value_attr = []\<rparr>,
       weight_input = \<lparr>typed = ''65.5'', value_attr = []\<rparr> \<rparr>
     (hrun [HChange ''weight'' ''65.5''] Home_mounted) = []"
  (is "?fd \<and> ?l \<and> ?a1 \<and> ?i1 \<and> ?l2 \<and> ?a2 \<and> ?i2")
proof -
  have l: ?l and fd: ?fd
    by (simp_all add: Home_mounted_def Home_init_def empty_form_def form_keys_def)
  have w2: "hui (hrun [HChange ''weight'' ''65.5''] Home_mounted) =
      \<lparr> formData =
          [(''id'', JStr []), (''name'', JStr []), (''gender'', JStr []), (''city'', JStr []),
           (''age'', JStr []), (''height'', JStr []), (''weight'', JStr ''65.5'')],
        loadingH = False \<rparr>"
    by (simp add: hstep_def handleChange_def Home_mounted_def Home_init_def empty_form_def
          form_keys_def)
  have p: "parse_float ''-'' = None" "parse_float [] = None" "parse_float ''65.5'' = Some (131 / 2)"
    by (simp_all add: parse_float_def split_at_def parse_exponent_def is_digit_def
          digits_value_def)
  have a1: ?a1
    by (simp add: dom_agrees_def input_value_def p fd opt_prop_def)
  have a2: ?a2
    by (simp only: w2) (simp add: dom_agrees_def input_value_def p opt_prop_def)
  have n1: "\<not> constraint_valid
     \<lparr> age_input = \<lparr>typed = ''-'', value_attr = []\<rparr>,
       height_input = \<lparr>typed = [], value_attr = []\<rparr>,
       weight_input = \<lparr>typed = [], value_attr = []\<rparr> \<rparr>"
    by (simp add: constraint_valid_def bad_input_def p)
  have "\<not> integral ((131 / 2 - 0) / 1)" by code_simp
  then have n2: "\<not> constraint_valid
     \<lparr> age_input = \<lparr>typed = [], value_attr = []\<rparr>,
       height_input = \<lparr>typed = [], value_attr = []\<rparr>,
       weight_input = \<lparr>typed = ''65.5'', value_attr = []\<rparr> \<rparr>"
    by (simp add: constraint_valid_def step_mismatch_def step_base_def p)
  from n1 have i1: ?i1 by (simp add: attempt_issued_def attempt_submit_def)
  from n2 have i2: ?i2 by (simp add: attempt_issued_def attempt_submit_def)
  have l2: ?l2 by (simp only: w2) simp
  from fd l a1 i1 l2 a2 i2 show ?thesis by (intro conjI)
qed

section \<open>Requests per action\<close>

lemma issued_le_1: "length (issued e w) \<le> 1"
  using issued_cases [of e w] by auto

lemma hissued_le_1: "length (hissued e w) \<le> 1"
  using hissued_cases [of e w] by auto

lemma pending_user_step:
  "\<not> is_settle e \<Longrightarrow> \<exists>k. pending (step e w) = pending w @ map (Pair k) (issued e w)"
  by (cases e) (auto simp: issued_def step_def launch_def)

lemma hpending_user_step:
  "\<not> is_hsettle e \<Longrightarrow> hpending (hstep e w) = hpending w @ hissued e w"
  by (cases e) (auto simp: hissued_def hstep_def hlaunch_def)

lemma settle_step:
  "i < length (pending w) \<Longrightarrow>
     pending (step (Settle i r) w) = take i (pending w) @ drop (Suc i) (pending w) \<and>
     ui (step (Settle i r) w) = fst (resume (fst (pending w ! i)) r (ui w)) \<and>
     issued (Settle i r) w = []"
  by (simp add: issued_def step_def launch_def resume_no_request)

lemma hsettle_step:
  "i < length (hpending w) \<Longrightarrow>
     hpending (hstep (HSettle i r) w) = take i (hpending w) @ drop (Suc i) (hpending w) \<and>
     hui (hstep (HSettle i r) w) = fst (handleSubmit_resume r (hui w)) \<and>
     hissued (HSettle i r) w = []"
  by (simp add: hissued_def hstep_def hlaunch_def handleSubmit_resume_no_request)

text \<open>
  Claim C7. Every event issues at most one request. A user event removes no request
  from those in flight: it appends the request it issues, if any. A request leaves
  only when it settles, and its handler is then resumed with the outcome.
\<close>

theorem one_request_per_action:
  "length (issued e w) \<le> 1 \<and>
   length (hissued e' w') \<le> 1 \<and>
   (\<not> is_settle e \<longrightarrow> (\<exists>k. pending (step e w) = pending w @ map (Pair k) (issued e w))) \<and>
   (\<not> is_hsettle e' \<longrightarrow> hpending (hstep e' w') = hpending w' @ hissued e' w') \<and>
   (i < length (pending w) \<longrightarrow>
      pending (step (Settle i r) w) = take i (pending w) @ drop (Suc i) (pending w) \<and>
      ui (step (Settle i r) w) = fst (resume (fst (pending w ! i)) r (ui w)) \<and>
      issued (Settle i r) w = []) \<and>
   (\<not> i < length (pending w) \<longrightarrow> step (Settle i r) w = w) \<and>
   (i < length (hpending w') \<longrightarrow>
      hpending (hstep (HSettle i r) w') = take i (hpending w') @ drop (Suc i) (hpending w') \<and>
      hui (hstep (HSettle i r) w') = fst (handleSubmit_resume r (hui w')) \<and>
      hissued (HSettle i r) w' = []) \<and>
   (\<not> i < length (hpending w') \<longrightarrow> hstep (HSettle i r) w' = w')"
proof -
  have a: "\<not> i < length (pending w) \<longrightarrow> step (Settle i r) w = w"
    by (simp add: step_def)
  have b: "\<not> i < length (hpending w') \<longrightarrow> hstep (HSettle i r) w' = w'"
    by (simp add: hstep_def)
  from issued_le_1 [of e w] hissued_le_1 [of e' w'] pending_user_step [of e w]
    hpending_user_step [of e' w'] settle_step [of i w r] hsettle_step [of i w' r] a b
  show ?thesis by blast
qed

theorem one_request_per_action_witness:
  "\<not> is_settle ClickApply \<and>
   issued ClickApply PatientUI_mounted = [sort_request ''height'' ''asc''] \<and>
   pending (step ClickApply PatientUI_mounted) =
     [(KSort, sort_request ''height'' ''asc''), (KSort, sort_request ''height'' ''asc'')] \<and>
   0 < length (pending PatientUI_mounted) \<and>
   pending (step (Settle 0 (Rejected None)) PatientUI_mounted) = [] \<and>
   \<not> is_hsettle HSubmit \<and>
   hpending (hstep HSubmit Home_mounted) = hissued HSubmit Home_mounted \<and>
   \<not> 0 < length (hpending Home_mounted) \<and>
   hstep (HSettle 0 (Rejected None)) Home_mounted = Home_mounted"
proof -
  have p: "pending PatientUI_mounted = [(KSort, sort_request ''height'' ''asc'')]"
    "hpending Home_mounted = []"
    by (simp_all add: PatientUI_mounted_def launch_def fetchSortedPatients_start_def
          PatientUI_init_def Home_mounted_def)
  have q: "issued ClickApply PatientUI_mounted = [sort_request ''height'' ''asc'']"
    by (simp add: issued_def step_def PatientUI_mounted_def launch_def
          fetchSortedPatients_start_def PatientUI_init_def)
  note T = one_request_per_action [of ClickApply PatientUI_mounted HSubmit Home_mounted 0
      "Rejected None"]
  from T have "\<exists>k. pending (step ClickApply PatientUI_mounted) =
      pending PatientUI_mounted @ map (Pair k) (issued ClickApply PatientUI_mounted)"
    by simp
  then obtain k where k: "pending (step ClickApply PatientUI_mounted) =
      [(KSort, sort_request ''height'' ''asc''), (k, sort_request ''height'' ''asc'')]"
    by (auto simp: p q)
  have "fst (pending (step ClickApply PatientUI_mounted) ! 1) = KSort"
    by (simp add: step_def PatientUI_mounted_def launch_def fetchSortedPatients_start_def)
  with k have a: "pending (step ClickApply PatientUI_mounted) =
     [(KSort, sort_request ''height'' ''asc''), (KSort, sort_request ''height'' ''asc'')]"
    by simp
  from T have b: "pending (step (Settle 0 (Rejected None)) PatientUI_mounted) = []"
    by (simp add: p)
  from T have c: "hpending (hstep HSubmit Home_mounted) = hissued HSubmit Home_mounted"
    by (simp add: p)
  from T have d: "hstep (HSettle 0 (Rejected None)) Home_mounted = Home_mounted"
    by (simp add: p)
  from a b c d q show ?thesis by (simp add: p)
qed

section \<open>Searching\<close>

text \<open>
  Claim C8. With an empty \<^verbatim>\<open>patientId\<close>, \<^verbatim>\<open>handleSearch\<close> issues no request, sets the
  message to \<^verbatim>\<open>Enter a valid patient ID.\<close> and changes nothing else, in particular not
  \<^verbatim>\<open>singlePatient\<close>, \<^verbatim>\<open>updateData\<close>, \<^verbatim>\<open>patients\<close> and \<^verbatim>\<open>loading\<close>.
\<close>

theorem handleSearch_empty_id:
  "patientId s = [] \<Longrightarrow>
     snd (handleSearch_start s) = [] \<and>
     fst (handleSearch_start s) = s\<lparr>error := JStr ''Enter a valid patient ID.''\<rparr> \<and>
     error (fst (handleSearch_start s)) = JStr ''Enter a valid patient ID.'' \<and>
     singlePatient (fst (handleSearch_start s)) = singlePatient s \<and>
     updateData (fst (handleSearch_start s)) = updateData s \<and>
     patients (fst (handleSearch_start s)) = patients s \<and>
     loading (fst (handleSearch_start s)) = loading s \<and>
     step ClickSearch \<lparr>ui = s, pending = p, trace = t\<rparr> =
       \<lparr>ui = s\<lparr>error := JStr ''Enter a valid patient ID.''\<rparr>, pending = p, trace = t\<rparr> \<and>
     issued ClickSearch \<lparr>ui = s, pending = p, trace = t\<rparr> = []"
  by (simp add: handleSearch_start_def step_def launch_def issued_def)

theorem handleSearch_empty_id_witness:
  "patientId PatientUI_init = [] \<and>
   snd (handleSearch_start PatientUI_init) = [] \<and>
   fst (handleSearch_start PatientUI_init) =
     PatientUI_init\<lparr>error := JStr ''Enter a valid patient ID.''\<rparr>"
proof -
  have a: "patientId PatientUI_init = []" by (simp add: PatientUI_init_def)
  from handleSearch_empty_id [OF a] a show ?thesis by blast
qed

lemma quiet_resume:
  "singlePatient s = JNull \<Longrightarrow> \<not> (k = KSearch \<and> (\<exists>d. r = Resolved d)) \<Longrightarrow>
     singlePatient (fst (resume k r s)) = JNull \<and> updateData (fst (resume k r s)) = updateData s"
  by (cases k; cases r) (simp_all add: resume_defs)

lemma quiet_step:
  assumes "singlePatient (ui w) = JNull" and "\<not> resolves_search w e"
  shows "singlePatient (ui (step e w)) = JNull \<and> updateData (ui (step e w)) = updateData (ui w)"
proof (cases e)
  case (Settle i r)
  show ?thesis
  proof (cases "i < length (pending w)")
    case False
    with Settle assms show ?thesis by (simp add: step_def)
  next
    case True
    with Settle assms(2)
    have "\<not> (fst (pending w ! i) = KSearch \<and> (\<exists>d. r = Resolved d))" by auto
    from quiet_resume [OF assms(1) this] Settle True show ?thesis
      by (simp add: step_def launch_def)
  qed
qed (use assms in \<open>simp_all add: step_def launch_def start_defs\<close>)

lemma quiet_run:
  "singlePatient (ui w) = JNull \<Longrightarrow> no_search_resolves es w \<Longrightarrow>
     singlePatient (ui (run es w)) = JNull \<and> updateData (ui (run es w)) = updateData (ui w)"
proof (induction es arbitrary: w)
  case Nil
  then show ?case by simp
next
  case (Cons e es)
  from Cons.prems have q: "\<not> resolves_search w e" and r: "no_search_resolves es (step e w)"
    by simp_all
  from quiet_step [OF Cons.prems(1) q]
  have s: "singlePatient (ui (step e w)) = JNull"
    and u: "updateData (ui (step e w)) = updateData (ui w)" by simp_all
  from Cons.IH [OF s r] u show ?case by simp
qed

lemma search_started:
  "patientId (ui w) \<noteq> [] \<Longrightarrow>
     singlePatient (ui (step ClickSearch w)) = JNull \<and>
     updateData (ui (step ClickSearch w)) = updateData (ui w) \<and>
     pending (step ClickSearch w) = pending w @ [(KSearch, patient_request (patientId (ui w)))]"
  by (simp add: step_def launch_def handleSearch_start_def)

lemma search_rejected_step:
  "i < length (pending w) \<Longrightarrow> fst (pending w ! i) = KSearch \<Longrightarrow>
     ui (step (Settle i (Rejected err)) w) = fst (handleSearch_resume (Rejected err) (ui w))"
  by (simp add: step_def launch_def)

text \<open>
  Claim C9, amended. With a non-empty \<^verbatim>\<open>patientId\<close>, \<^verbatim>\<open>handleSearch\<close> sets \<^verbatim>\<open>singlePatient\<close> to
  \<^verbatim>\<open>null\<close> before it issues \<^verbatim>\<open>GET /patient/{id}\<close>, so the patient shown before is gone as
  soon as the search starts. When the request fails, the handler sets the message to the
  \<^verbatim>\<open>detail\<close> of the error answer when that is truthy and to \<^verbatim>\<open>Patient not found.\<close>
  otherwise, and writes nothing else but \<^verbatim>\<open>loading\<close>. So as long as no search delivers
  a patient between the start and the failure, no patient is shown and \<^verbatim>\<open>updateData\<close> is
  as it was when the search started.
\<close>

theorem failed_search_clears_patient:
  "(patientId s \<noteq> [] \<longrightarrow>
      handleSearch_start s =
        (s\<lparr>error := JStr [], singlePatient := JNull, loading := True\<rparr>,
         [Http (patient_request (patientId s))])) \<and>
   handleSearch_resume (Rejected None) s' =
     (s'\<lparr>error := JStr ''Patient not found.'', loading := False\<rparr>, []) \<and>
   (\<not> truthy (opt_prop d ''detail'') \<longrightarrow>
      handleSearch_resume (Rejected (Some d)) s' =
        (s'\<lparr>error := JStr ''Patient not found.'', loading := False\<rparr>, [])) \<and>
   (truthy (opt_prop d ''detail'') \<longrightarrow>
      handleSearch_resume (Rejected (Some d)) s' =
        (s'\<lparr>error := opt_prop d ''detail'', loading := False\<rparr>, [])) \<and>
   (i < length (pending w') \<and> fst (pending w' ! i) = KSearch \<longrightarrow>
      ui (step (Settle i (Rejected err)) w') =
        fst (handleSearch_resume (Rejected err) (ui w'))) \<and>
   (patientId (ui w) \<noteq> [] \<and> no_search_resolves es (step ClickSearch w) \<longrightarrow>
      pending (step ClickSearch w) =
        pending w @ [(KSearch, patient_request (patientId (ui w)))] \<and>
      singlePatient (ui (run es (step ClickSearch w))) = JNull \<and>
      updateData (ui (run es (step ClickSearch w))) = updateData (ui w))"
proof -
  have a: "patientId s \<noteq> [] \<longrightarrow>
      handleSearch_start s =
        (s\<lparr>error := JStr [], singlePatient := JNull, loading := True\<rparr>,
         [Http (patient_request (patientId s))])"
    by (simp add: handleSearch_start_def)
  have b: "handleSearch_resume (Rejected None) s' =
     (s'\<lparr>error := JStr ''Patient not found.'', loading := False\<rparr>, [])"
    "\<not> truthy (opt_prop d ''detail'') \<longrightarrow>
      handleSearch_resume (Rejected (Some d)) s' =
        (s'\<lparr>error := JStr ''Patient not found.'', loading := False\<rparr>, [])"
    "truthy (opt_prop d ''detail'') \<longrightarrow>
      handleSearch_resume (Rejected (Some d)) s' =
        (s'\<lparr>error := opt_prop d ''detail'', loading := False\<rparr>, [])"
    by (simp_all add: failed_search_state)
  have c: "i < length (pending w') \<and> fst (pending w' ! i) = KSearch \<longrightarrow>
      ui (step (Settle i (Rejected err)) w') =
        fst (handleSearch_resume (Rejected err) (ui w'))"
    by (simp add: search_rejected_step)
  have e: "patientId (ui w) \<noteq> [] \<and> no_search_resolves es (step ClickSearch w) \<longrightarrow>
      pending (step ClickSearch w) =
        pending w @ [(KSearch, patient_request (patientId (ui w)))] \<and>
      singlePatient (ui (run es (step ClickSearch w))) = JNull \<and>
      updateData (ui (run es (step ClickSearch w))) = updateData (ui w)"
  proof (intro impI)
    assume h: "patientId (ui w) \<noteq> [] \<and> no_search_resolves es (step ClickSearch w)"
    from search_started [of w] h
    have s: "singlePatient (ui (step ClickSearch w)) = JNull"
      and u: "updateData (ui (step ClickSearch w)) = updateData (ui w)"
      and p: "pending (step ClickSearch w) =
        pending w @ [(KSearch, patient_request (patientId (ui w)))]"
      by simp_all
    from quiet_run [OF s, of es] h u p
    show "pending (step ClickSearch w) =
        pending w @ [(KSearch, patient_request (patientId (ui w)))] \<and>
      singlePatient (ui (run es (step ClickSearch w))) = JNull \<and>
      updateData (ui (run es (step ClickSearch w))) = updateData (ui w)"
      by simp
  qed
  show ?thesis by (intro conjI a b c e)
qed

text \<open>
  The witness: a patient is on the page; the user searches for \<^verbatim>\<open>P002\<close>; the first fetch
  of the page resolves, then the search fails with the detail \<^verbatim>\<open>No such patient\<close>.
\<close>

theorem failed_search_clears_patient_witness:
  "patientId (ui (run [TypePatientId ''P001'', ClickSearch,
                       Settle 1 (Resolved (JObj [(''name'', JStr ''A'')])),
                       TypePatientId ''P002''] PatientUI_mounted)) \<noteq> [] \<and>
   truthy (singlePatient (ui (run [TypePatientId ''P001'', ClickSearch,
                       Settle 1 (Resolved (JObj [(''name'', JStr ''A'')])),
                       TypePatientId ''P002''] PatientUI_mounted))) \<and>
   no_search_resolves
     [Settle 0 (Resolved (JArr [])),
      Settle 0 (Rejected (Some (JObj [(''detail'', JStr ''No such patient'')])))]
     (step ClickSearch (run [TypePatientId ''P001'', ClickSearch,
                       Settle 1 (Resolved (JObj [(''name'', JStr ''A'')])),
                       TypePatientId ''P002''] PatientUI_mounted)) \<and>
   singlePatient (ui (run
     [Settle 0 (Resolved (JArr [])),
      Settle 0 (Rejected (Some (JObj [(''detail'', JStr ''No such patient'')])))]
     (step ClickSearch (run [TypePatientId ''P001'', ClickSearch,
                       Settle 1 (Resolved (JObj [(''name'', JStr ''A'')])),
                       TypePatientId ''P002''] PatientUI_mounted)))) = JNull \<and>
   updateData (ui (run
     [Settle 0 (Resolved (JArr [])),
      Settle 0 (Rejected (Some (JObj [(''detail'', JStr ''No such patient'')])))]
     (step ClickSearch (run [TypePatientId ''P001'', ClickSearch,
                       Settle 1 (Resolved (JObj [(''name'', JStr ''A'')])),
                       TypePatientId ''P002''] PatientUI_mounted)))) =
     [(''name'', JStr ''A''), (''city'', JUndefined), (''age'', JUndefined),
      (''gender'', JUndefined), (''height'', JUndefined), (''weight'', JUndefined)] \<and>
   error (ui (run
     [Settle 0 (Resolved (JArr [])),
      Settle 0 (Rejected (Some (JObj [(''detail'', JStr ''No such patient'')])))]
     (step ClickSearch (run [TypePatientId ''P001'', ClickSearch,
                       Settle 1 (Resolved (JObj [(''name'', JStr ''A'')])),
                       TypePatientId ''P002''] PatientUI_mounted)))) = JStr ''No such patient'' \<and>
   handleSearch_resume (Rejected (Some (JObj [(''detail'', JStr [])]))) PatientUI_init =
     (PatientUI_init\<lparr>error := JStr ''Patient not found.'', loading := False\<rparr>, [])"
  (is "?p \<and> ?t \<and> ?q \<and> ?s \<and> ?u \<and> ?e \<and> ?f")
proof -
  define w where "w = run [TypePatientId ''P001'', ClickSearch,
                       Settle 1 (Resolved (JObj [(''name'', JStr ''A'')])),
                       TypePatientId ''P002''] PatientUI_mounted"
  have w: "w = \<lparr> ui = \<lparr> patients = JArr [], loading = False, sortBy = ''height'', order = ''asc'',
                       patientId = ''P002'', singlePatient = JObj [(''name'', JStr ''A'')],
                       error = JStr [],
                       updateData = [(''name'', JStr ''A''), (''city'', JUndefined),
                                     (''age'', JUndefined), (''gender'', JUndefined),
                                     (''height'', JUndefined), (''weight'', JUndefined)] \<rparr>,
                pending = [(KSort, sort_request ''height'' ''asc'')],
                trace = [Http (sort_request ''height'' ''asc''),
                         Http (patient_request ''P001'')] \<rparr>"
    unfolding w_def
    by (simp add: PatientUI_mounted_def PatientUI_init_def step_def launch_def start_defs
          resume_defs update_keys_def)
  have p: "patientId (ui w) \<noteq> []" and t: "truthy (singlePatient (ui w))"
    and u0: "updateData (ui w) = [(''name'', JStr ''A''), (''city'', JUndefined),
        (''age'', JUndefined), (''gender'', JUndefined), (''height'', JUndefined),
        (''weight'', JUndefined)]"
    by (simp_all add: w)
  let ?es = "[Settle 0 (Resolved (JArr [])),
      Settle 0 (Rejected (Some (JObj [(''detail'', JStr ''No such patient'')])))]"
  have q: "no_search_resolves ?es (step ClickSearch w)"
    by (simp add: w step_def launch_def start_defs resume_defs)
  have e: "error (ui (run ?es (step ClickSearch w))) = JStr ''No such patient''"
    by (simp add: w step_def launch_def start_defs resume_defs search_error_def js_or_def
          opt_prop_def)
  note T = failed_search_clears_patient [of _ _ "JObj [(''detail'', JStr [])]" _ _ _ w ?es]
  from T p q have s: "singlePatient (ui (run ?es (step ClickSearch w))) = JNull"
    and u: "updateData (ui (run ?es (step ClickSearch w))) = updateData (ui w)"
    by blast+
  have nt: "\<not> truthy (opt_prop (JObj [(''detail'', JStr [])]) ''detail'')"
    by (simp add: opt_prop_def)
  from failed_search_clears_patient [of _ PatientUI_init "JObj [(''detail'', JStr [])]"] nt
  have f: ?f by blast
  from p t q s u e f show ?thesis unfolding w_def u0 [unfolded w_def] by (intro conjI)
qed

text \<open>
  Claim C9 as stated (after every failing search only the error message remains and
  \<^verbatim>\<open>updateData\<close> retains its previous values) fails when two searches overlap: the user
  searches for \<^verbatim>\<open>P001\<close> and, before the answer, for \<^verbatim>\<open>P002\<close>; the second search delivers
  a patient, then the first one fails. The page shows the message next to the panel of
  that patient, and \<^verbatim>\<open>updateData\<close> holds the patient's fields.
\<close>

theorem failed_search_overlap_counterexample:
  "pending (run [TypePatientId ''P001'', ClickSearch, TypePatientId ''P002'', ClickSearch,
                 Settle 2 (Resolved (JObj [(''name'', JStr ''B'')]))] PatientUI_mounted) =
     [(KSort, sort_request ''height'' ''asc''), (KSearch, patient_request ''P001'')] \<and>
   singlePatient (ui (run [TypePatientId ''P001'', ClickSearch, TypePatientId ''P002'',
                           ClickSearch, Settle 2 (Resolved (JObj [(''name'', JStr ''B'')])),
                           Settle 1 (Rejected None)] PatientUI_mounted)) =
     JObj [(''name'', JStr ''B'')] \<and>
   error (ui (run [TypePatientId ''P001'', ClickSearch, TypePatientId ''P002'',
                   ClickSearch, Settle 2 (Resolved (JObj [(''name'', JStr ''B'')])),
                   Settle 1 (Rejected None)] PatientUI_mounted)) = JStr ''Patient not found.'' \<and>
   updateData (ui (run [TypePatientId ''P001'', ClickSearch, TypePatientId ''P002'',
                        ClickSearch, Settle 2 (Resolved (JObj [(''name'', JStr ''B'')])),
                        Settle 1 (Rejected None)] PatientUI_mounted)) =
     [(''name'', JStr ''B''), (''city'', JUndefined), (''age'', JUndefined),
      (''gender'', JUndefined), (''height'', JUndefined), (''weight'', JUndefined)] \<and>
   updateData (ui (run [TypePatientId ''P001''] PatientUI_mounted)) =
     [(''name'', JStr []), (''city'', JStr []), (''age'', JStr []),
      (''gender'', JStr []), (''height'', JStr []), (''weight'', JStr [])] \<and>
   map_option v_panel (projr_opt (render (ui (run [TypePatientId ''P001'', ClickSearch,
        TypePatientId ''P002'', ClickSearch, Settle 2 (Resolved (JObj [(''name'', JStr ''B'')])),
        Settle 1 (Rejected None)] PatientUI_mounted)))) =
     Some (Some [(''name'', JStr ''B''), (''city'', JUndefined), (''age'', JUndefined),
                 (''gender'', JUndefined), (''height'', JUndefined), (''weight'', JUndefined),
                 (''bmi'', JUndefined), (''verdict'', JUndefined)])"
  by (simp add: PatientUI_mounted_def PatientUI_init_def step_def launch_def start_defs
        resume_defs request_defs search_error_def js_or_def opt_prop_def update_keys_def
        render_def render_cards_def panel_keys_def card_keys_def projr_opt_def)

section \<open>The loading flag\<close>

lemma list_ex_remove_nth:
  assumes "i < length xs" and "list_ex P xs" and "\<not> P (xs ! i)"
  shows "list_ex P (take i xs @ drop (Suc i) xs)"
proof -
  from assms(1) have "xs = take i xs @ xs ! i # drop (Suc i) xs" by (rule id_take_nth_drop)
  then have "list_ex P (take i xs @ xs ! i # drop (Suc i) xs)" using assms(2) by simp
  then show ?thesis using assms(3) by (auto simp: list_ex_iff)
qed

lemma loading_resume:
  "loading (fst (resume k r s)) = (if awaits_loading (k, q) then False else loading s)"
  by (cases k; cases r) (simp_all add: resume_defs split: sum.splits)

lemma loading_kept: "loading (ui w) \<Longrightarrow> \<not> settles_loading w e \<Longrightarrow> loading (ui (step e w))"
proof (cases e)
  case (Settle i r)
  assume l: "loading (ui w)" and n: "\<not> settles_loading w e"
  obtain k q where kq: "pending w ! i = (k, q)" by (cases "pending w ! i")
  with Settle l n loading_resume [of k r "ui w" q] show ?thesis
    by (auto simp: step_def launch_def)
qed (auto simp: step_def launch_def start_defs handleUpdateChange_def)

lemma loading_inv_step: "loading_inv w \<Longrightarrow> loading_inv (step e w)"
proof (cases e)
  case (Settle i r)
  assume inv: "loading_inv w"
  show ?thesis
  proof (cases "i < length (pending w)")
    case False
    with inv Settle show ?thesis by (simp add: step_def)
  next
    case True
    obtain k q where kq: "pending w ! i = (k, q)" by (cases "pending w ! i")
    show ?thesis
    proof (cases "awaits_loading (k, q)")
      case True
      with \<open>i < length (pending w)\<close> Settle kq loading_resume [of k r "ui w" q]
      show ?thesis by (simp add: loading_inv_def step_def launch_def)
    next
      case False
      with \<open>i < length (pending w)\<close> Settle kq loading_resume [of k r "ui w" q] inv
        list_ex_remove_nth [of i "pending w" awaits_loading]
      show ?thesis
        by (auto simp: loading_inv_def step_def launch_def resume_no_request)
    qed
  qed
qed (auto simp: loading_inv_def step_def launch_def start_defs handleUpdateChange_def)

lemma loading_inv_run: "loading_inv w \<Longrightarrow> loading_inv (run es w)"
  by (induction es arbitrary: w) (simp_all add: loading_inv_step)

lemma loading_inv_mounted: "loading_inv PatientUI_mounted"
  by (simp add: loading_inv_def PatientUI_mounted_def launch_def fetchSortedPatients_start_def
        sort_request_def)

lemma home_inv_step: "home_inv w \<Longrightarrow> home_inv (hstep e w)"
proof (cases e)
  case (HSettle i r)
  assume inv: "home_inv w"
  show ?thesis
  proof (cases "i < length (hpending w)")
    case False
    with inv HSettle show ?thesis by (simp add: hstep_def)
  next
    case True
    with inv have "i = 0" "length (hpending w) = 1" by (auto simp: home_inv_def)
    with HSettle True show ?thesis
      by (cases r) (simp_all add: home_inv_def hstep_def hlaunch_def handleSubmit_resume_def)
  qed
qed (auto simp: home_inv_def hstep_def hlaunch_def handleSubmit_start_def handleChange_def)

lemma home_inv_run: "home_inv w \<Longrightarrow> home_inv (hrun es w)"
  by (induction es arbitrary: w) (simp_all add: home_inv_step)

lemma home_inv_mounted: "home_inv Home_mounted"
  by (simp add: home_inv_def Home_mounted_def Home_init_def)

text \<open>
  Claim C10, amended. Each of \<^verbatim>\<open>fetchSortedPatients\<close>, \<^verbatim>\<open>handleSearch\<close> and
  \<^verbatim>\<open>handleSubmit\<close> sets \<^verbatim>\<open>loading\<close> when it issues its request and resets it when the
  request settles, resolved or rejected. So in every reachable world of the dashboard
  \<^verbatim>\<open>loading\<close> is true only if a sort or search request is in flight, and once true it
  stays true until a sort or search request settles (its own or, the flag being shared,
  another one). In the creation form \<^verbatim>\<open>loading\<close> is true exactly while its one request
  is in flight.
\<close>

theorem loading_set_and_reset:
  "loading (fst (fetchSortedPatients_start s)) \<and>
   (patientId s \<noteq> [] \<longrightarrow> loading (fst (handleSearch_start s))) \<and>
   loadingH (fst (handleSubmit_start h)) \<and>
   \<not> loading (fst (fetchSortedPatients_resume r s)) \<and>
   \<not> loading (fst (handleSearch_resume r s)) \<and>
   \<not> loadingH (fst (handleSubmit_resume r h)) \<and>
   (loading (ui (run es PatientUI_mounted)) \<longrightarrow>
      list_ex awaits_loading (pending (run es PatientUI_mounted))) \<and>
   (loading (ui w) \<and> \<not> settles_loading w ev \<longrightarrow> loading (ui (step ev w))) \<and>
   (loadingH (hui (hrun hs Home_mounted)) \<longleftrightarrow> hpending (hrun hs Home_mounted) \<noteq> []) \<and>
   length (hpending (hrun hs Home_mounted)) \<le> 1"
proof -
  have a: "loading (fst (fetchSortedPatients_start s))"
    by (simp add: fetchSortedPatients_start_def)
  have b: "patientId s \<noteq> [] \<longrightarrow> loading (fst (handleSearch_start s))"
    by (simp add: handleSearch_start_def)
  have c: "loadingH (fst (handleSubmit_start h))"
    by (simp add: handleSubmit_start_def)
  have d: "\<not> loading (fst (fetchSortedPatients_resume r s))"
    using loading_resume [of KSort r s] by simp
  have e: "\<not> loading (fst (handleSearch_resume r s))"
    using loading_resume [of KSearch r s] by simp
  have f: "\<not> loadingH (fst (handleSubmit_resume r h))"
    by (cases r) (simp_all add: handleSubmit_resume_def)
  have g: "loading (ui (run es PatientUI_mounted)) \<longrightarrow>
      list_ex awaits_loading (pending (run es PatientUI_mounted))"
    using loading_inv_run [OF loading_inv_mounted, of es] by (simp add: loading_inv_def)
  have h: "loadingH (hui (hrun hs Home_mounted)) \<longleftrightarrow> hpending (hrun hs Home_mounted) \<noteq> []"
    "length (hpending (hrun hs Home_mounted)) \<le> 1"
    using home_inv_run [OF home_inv_mounted, of hs] by (simp_all add: home_inv_def)
  have i: "loading (ui w) \<and> \<not> settles_loading w ev \<longrightarrow> loading (ui (step ev w))"
    using loading_kept [of w ev] by blast
  from a b c d e f g h i show ?thesis by blast
qed

theorem loading_set_and_reset_witness:
  "patientId (PatientUI_init\<lparr>patientId := ''P001''\<rparr>) \<noteq> [] \<and>
   loading (fst (handleSearch_start (PatientUI_init\<lparr>patientId := ''P001''\<rparr>))) \<and>
   \<not> loading (fst (handleSearch_resume (Rejected None)
        (fst (handleSearch_start (PatientUI_init\<lparr>patientId := ''P001''\<rparr>))))) \<and>
   loading (ui (run [ClickApply] PatientUI_mounted)) \<and>
   list_ex awaits_loading (pending (run [ClickApply] PatientUI_mounted)) \<and>
   loading (ui PatientUI_mounted) \<and> \<not> settles_loading PatientUI_mounted (TypePatientId ''P001'') \<and>
   loading (ui (step (TypePatientId ''P001'') PatientUI_mounted)) \<and>
   loadingH (hui (hrun [HSubmit] Home_mounted)) \<and>
   hpending (hrun [HSubmit] Home_mounted) \<noteq> []"
proof -
  have a: "patientId (PatientUI_init\<lparr>patientId := ''P001''\<rparr>) \<noteq> []" by simp
  have b: "loading (ui (run [ClickApply] PatientUI_mounted))"
    by (simp add: step_def launch_def fetchSortedPatients_start_def)
  have c: "loadingH (hui (hrun [HSubmit] Home_mounted))"
    by (simp add: hstep_def hlaunch_def handleSubmit_start_def Home_mounted_def Home_init_def)
  have m: "loading (ui PatientUI_mounted) \<and> \<not> settles_loading PatientUI_mounted (TypePatientId ''P001'')"
    by (simp add: PatientUI_mounted_def launch_def fetchSortedPatients_start_def)
  note T = loading_set_and_reset [of "PatientUI_init\<lparr>patientId := ''P001''\<rparr>" _
      "Rejected None" "[ClickApply]" PatientUI_mounted "TypePatientId ''P001''" "[HSubmit]"]
  from T m have n: "loading (ui (step (TypePatientId ''P001'') PatientUI_mounted))"
    by blast
  from T a have d: "loading (fst (handleSearch_start (PatientUI_init\<lparr>patientId := ''P001''\<rparr>)))"
    by blast
  from T have e: "\<not> loading (fst (handleSearch_resume (Rejected None) s'))" for s'
    using loading_set_and_reset [of s' _ "Rejected None"] by blast
  from T b have f: "list_ex awaits_loading (pending (run [ClickApply] PatientUI_mounted))"
    by blast
  from T c have g: "hpending (hrun [HSubmit] Home_mounted) \<noteq> []"
    by blast
  from a b c d e f g m n show ?thesis by blast
qed

text \<open>
  Claim C10 as stated (the flag is true while the request is in flight) fails on the
  dashboard, where \<^verbatim>\<open>fetchSortedPatients\<close> and \<^verbatim>\<open>handleSearch\<close> share one flag: the
  user searches for \<^verbatim>\<open>P001\<close> while the first fetch is in flight, the fetch settles, and
  \<^verbatim>\<open>loading\<close> is false although the search request is still in flight.
\<close>

theorem loading_overlap_counterexample:
  "list_ex awaits_loading
     (pending (run [TypePatientId ''P001'', ClickSearch, Settle 0 (Resolved (JArr []))]
        PatientUI_mounted)) \<and>
   \<not> loading (ui (run [TypePatientId ''P001'', ClickSearch, Settle 0 (Resolved (JArr []))]
        PatientUI_mounted))"
  by (simp add: PatientUI_mounted_def PatientUI_init_def step_def launch_def
        fetchSortedPatients_start_def handleSearch_start_def fetchSortedPatients_resume_def)

end
